theory Spec2Isabelle
  imports Main
begin

section \<open>Data model\<close>

text \<open>
  The tables of the store are lists of rows, in storage order. No key, foreign-key,
  uniqueness or not-null constraint is assumed: a query is exactly the filter the
  source writes, and \<open>const [row] = await ...select()\<close> is the first matching row.
  Serial identifiers are drawn from one counter per table. Time stamps are natural
  numbers and \<open>new Date()\<close> is the parameter \<open>now\<close> of an operation.

  Modelled from the spec: the table definitions (\<open>database/schema\<close>), which the
  repository does not hold. The columns are those of the row types the source declares
  and of the spec's data model: quest status is one of active, archived, completed;
  participation status one of in_progress, completed, failed; rarity one of common,
  epic, rare, legendary, private; a soft-deleted row has record status DELETED. A new
  row has record status CREATED and the time of the insert in its time stamps.
\<close>

datatype record_status = CREATED | DELETED

datatype quest_status = QActive | QArchived | QCompleted

datatype user_quest_status = UQ_in_progress | UQ_completed | UQ_failed

datatype rarity = Common | Epic | Rare | Legendary | Private

record requirement =
  currentValue :: "int option"
  targetValue :: "int option"

record step =
  st_title :: string
  st_description :: "string option"
  st_status :: string
  st_progress :: int
  st_requirement :: "requirement option"
  st_deadline :: "string option"

record user =
  u_id :: nat
  u_firstName :: string
  u_lastName :: string
  u_email :: string
  u_level :: int
  u_experience :: int
  u_recordStatus :: record_status

record quest =
  q_id :: nat
  q_title :: string
  q_description :: "string option"
  q_status :: quest_status
  q_experienceReward :: int
  q_achievementId :: "nat option"
  q_ownerId :: nat
  q_cityId :: nat
  q_organizationTypeId :: "nat option"
  q_latitude :: "string option"
  q_longitude :: "string option"
  q_address :: "string option"
  q_contacts :: "(string \<times> string) list option"
  q_coverImage :: "string option"
  q_gallery :: "string list option"
  q_steps :: "step list option"
  q_recordStatus :: record_status
  q_createdAt :: nat
  q_updatedAt :: nat

record achievement =
  a_id :: nat
  a_title :: string
  a_description :: "string option"
  a_icon :: "string option"
  a_rarity :: rarity
  a_questId :: "nat option"
  a_recordStatus :: record_status

record user_quest =
  uq_id :: nat
  uq_userId :: nat
  uq_questId :: nat
  uq_status :: user_quest_status
  uq_startedAt :: "nat option"
  uq_completedAt :: "nat option"

record user_achievement =
  ua_id :: nat
  ua_userId :: nat
  ua_achievementId :: "nat option"
  ua_unlockedAt :: nat

record city =
  ct_id :: nat
  ct_name :: string
  ct_latitude :: "string option"
  ct_longitude :: "string option"
  ct_recordStatus :: record_status

record organization_type =
  ot_id :: nat
  ot_name :: string
  ot_recordStatus :: record_status

record category =
  cat_id :: nat
  cat_name :: string
  cat_recordStatus :: record_status

record quest_category =
  qc_questId :: nat
  qc_categoryId :: nat

text \<open>The projections the queries select for event payloads and joined relations.\<close>

record user_info =
  ui_id :: nat
  ui_firstName :: string
  ui_lastName :: string
  ui_email :: string

record quest_data =
  qd_id :: nat
  qd_title :: string
  qd_status :: quest_status
  qd_experienceReward :: int

record quest_with_relations =
  qr_quest :: quest
  qr_achievement :: "achievement option"
  qr_owner :: user_info
  qr_city :: "(nat \<times> string) option"
  qr_organizationType :: "(nat \<times> string) option"

type_synonym quest_with_all_data = "quest_with_relations \<times> (nat \<times> string) list"

datatype event =
    UserJoined nat nat "user_info option"
  | QuestCreated nat quest_with_all_data
  | QuestCompleted nat nat "quest_data option"
  | RequirementUpdated nat "step list option"

record state =
  users :: "user list"
  quests :: "quest list"
  achievements :: "achievement list"
  userQuests :: "user_quest list"
  userAchievements :: "user_achievement list"
  cities :: "city list"
  organizationTypes :: "organization_type list"
  categories :: "category list"
  questCategories :: "quest_category list"
  nextQuestId :: nat
  nextAchievementId :: nat
  nextUserQuestId :: nat
  nextUserAchievementId :: nat
  events :: "event list"

section \<open>Errors\<close>

text \<open>
  Every exception of the source is a value. The message of an exception is one of the
  source's message templates together with the values interpolated into it.
\<close>

datatype message =
    MsgUserNotFound nat
  | MsgQuestNotFound nat
  | MsgCityNotFound nat
  | MsgOrganizationTypeNotFound nat
  | MsgAchievementNotFound nat
  | MsgCategoriesNotFound
  | MsgLevelTooLow
  | MsgGalleryTooLarge
  | MsgQuestNotAvailable
  | MsgAlreadyJoined
  | MsgNotParticipating
  | MsgCannotLeaveCompleted
  | MsgNotStarted
  | MsgAlreadyCompleted
  | MsgQuestStatusNotEditable quest_status
  | MsgNoSteps
  | MsgStepIndexOutOfRange int nat
  | MsgStepNotFound int
  | MsgNoRequirement int
  | MsgNoTargetValue
  | MsgCurrentValueNegative
  | MsgCurrentValueExceedsTarget int int
  | MsgTitleTaken
  | MsgPrivateNeedsQuest
  | MsgNonPrivateForbidsQuest
  | MsgCreateAchievementFailed
  | MsgFetchCreatedQuestFailed
  | MsgLeaveFailed
  | MsgCompleteFailed

datatype error =
    NotFound message
  | BadRequest message
  | Conflict message
  | Forbidden message
  | InternalError message

type_synonym 'a result = "(error + 'a) \<times> state"

section \<open>Queries written inline in the services\<close>

text \<open>\<open>eq(column, value)\<close> on a nullable column: SQL equality is never true of NULL.\<close>

fun sql_eq :: "nat option \<Rightarrow> nat option \<Rightarrow> bool" where
  "sql_eq (Some x) (Some y) = (x = y)"
| "sql_eq _ _ = False"

definition selectUser :: "state \<Rightarrow> nat \<Rightarrow> user option" where
  "selectUser s userId =
     find (\<lambda>u. u_id u = userId \<and> u_recordStatus u \<noteq> DELETED) (users s)"

definition userInfo :: "user \<Rightarrow> user_info" where
  "userInfo u = \<lparr>ui_id = u_id u, ui_firstName = u_firstName u,
                 ui_lastName = u_lastName u, ui_email = u_email u\<rparr>"

definition selectUserData :: "state \<Rightarrow> nat \<Rightarrow> user_info option" where
  "selectUserData s userId = map_option userInfo (selectUser s userId)"

definition selectAchievement :: "state \<Rightarrow> nat \<Rightarrow> achievement option" where
  "selectAchievement s aid =
     find (\<lambda>a. a_id a = aid \<and> a_recordStatus a \<noteq> DELETED) (achievements s)"

definition selectCity :: "state \<Rightarrow> nat \<Rightarrow> city option" where
  "selectCity s cid =
     find (\<lambda>c. ct_id c = cid \<and> ct_recordStatus c \<noteq> DELETED) (cities s)"

definition selectOrganizationType :: "state \<Rightarrow> nat \<Rightarrow> organization_type option" where
  "selectOrganizationType s oid =
     find (\<lambda>t. ot_id t = oid \<and> ot_recordStatus t \<noteq> DELETED) (organizationTypes s)"

definition selectCategories :: "state \<Rightarrow> nat list \<Rightarrow> category list" where
  "selectCategories s ids =
     filter (\<lambda>c. cat_id c \<in> set ids \<and> cat_recordStatus c \<noteq> DELETED) (categories s)"

definition selectUserAchievement :: "state \<Rightarrow> nat \<Rightarrow> nat option \<Rightarrow> user_achievement option" where
  "selectUserAchievement s userId achievementId =
     find (\<lambda>ua. ua_userId ua = userId \<and> sql_eq (ua_achievementId ua) achievementId)
       (userAchievements s)"

definition insertUserAchievement :: "nat \<Rightarrow> state \<Rightarrow> nat \<Rightarrow> nat option \<Rightarrow> state" where
  "insertUserAchievement now s userId achievementId =
     s\<lparr>userAchievements := userAchievements s @
          [\<lparr>ua_id = nextUserAchievementId s, ua_userId = userId,
            ua_achievementId = achievementId, ua_unlockedAt = now\<rparr>],
       nextUserAchievementId := Suc (nextUserAchievementId s)\<rparr>"

definition selectQuestData :: "state \<Rightarrow> nat \<Rightarrow> quest_data option" where
  "selectQuestData s questId =
     map_option (\<lambda>q. \<lparr>qd_id = q_id q, qd_title = q_title q, qd_status = q_status q,
                       qd_experienceReward = q_experienceReward q\<rparr>)
       (find (\<lambda>q. q_id q = questId \<and> q_recordStatus q \<noteq> DELETED) (quests s))"

text \<open>
  Modelled from the spec: the event sink (\<open>quest.events\<close>), of which the source holds
  only the calls. It receives domain events, fire-and-forget, and returns nothing the
  engine consumes: an emitted event is appended to the log of the store.
\<close>

definition emit :: "event \<Rightarrow> state \<Rightarrow> state" where
  "emit e s = s\<lparr>events := events s @ [e]\<rparr>"

section \<open>QuestRepository\<close>

definition liveQuest :: "nat \<Rightarrow> quest \<Rightarrow> bool" where
  "liveQuest qid q \<longleftrightarrow> q_id q = qid \<and> q_recordStatus q \<noteq> DELETED"

definition findByIdBasic :: "state \<Rightarrow> nat \<Rightarrow> quest option" where
  "findByIdBasic s qid = find (liveQuest qid) (quests s)"

text \<open>
  \<open>findById\<close> joins the quest with its relations. The join with the owner is an inner
  join on a non-deleted user, so a quest whose owner is missing or soft-deleted yields
  no row; achievement, city and organization type are left joins.
\<close>

definition findById :: "state \<Rightarrow> nat \<Rightarrow> quest_with_relations option" where
  "findById s qid =
     (case find (\<lambda>q. liveQuest qid q \<and> selectUser s (q_ownerId q) \<noteq> None) (quests s) of
        None \<Rightarrow> None
      | Some q \<Rightarrow>
          (case selectUser s (q_ownerId q) of
             None \<Rightarrow> None
           | Some owner \<Rightarrow>
               Some \<lparr>qr_quest = q,
                     qr_achievement =
                       (case q_achievementId q of None \<Rightarrow> None
                        | Some aid \<Rightarrow> selectAchievement s aid),
                     qr_owner = userInfo owner,
                     qr_city =
                       map_option (\<lambda>c. (ct_id c, ct_name c)) (selectCity s (q_cityId q)),
                     qr_organizationType =
                       (case q_organizationTypeId q of None \<Rightarrow> None
                        | Some oid \<Rightarrow>
                            map_option (\<lambda>t. (ot_id t, ot_name t))
                              (selectOrganizationType s oid))\<rparr>))"

text \<open>The \<open>data\<close> argument of \<open>create\<close>: the row without the columns the store fills in.\<close>

record quest_insert =
  qi_title :: string
  qi_description :: "string option"
  qi_status :: quest_status
  qi_experienceReward :: int
  qi_achievementId :: "nat option"
  qi_ownerId :: nat
  qi_cityId :: nat
  qi_organizationTypeId :: "nat option"
  qi_latitude :: "string option"
  qi_longitude :: "string option"
  qi_address :: "string option"
  qi_contacts :: "(string \<times> string) list option"
  qi_coverImage :: "string option"
  qi_gallery :: "string list option"
  qi_steps :: "step list option"

definition QuestRepository_create :: "nat \<Rightarrow> state \<Rightarrow> quest_insert \<Rightarrow> quest \<times> state" where
  "QuestRepository_create now s d =
     (let q = \<lparr>q_id = nextQuestId s, q_title = qi_title d,
                q_description = qi_description d, q_status = qi_status d,
                q_experienceReward = qi_experienceReward d,
                q_achievementId = qi_achievementId d, q_ownerId = qi_ownerId d,
                q_cityId = qi_cityId d, q_organizationTypeId = qi_organizationTypeId d,
                q_latitude = qi_latitude d, q_longitude = qi_longitude d,
                q_address = qi_address d, q_contacts = qi_contacts d,
                q_coverImage = qi_coverImage d, q_gallery = qi_gallery d,
                q_steps = qi_steps d, q_recordStatus = CREATED,
                q_createdAt = now, q_updatedAt = now\<rparr>
      in (q, s\<lparr>quests := quests s @ [q], nextQuestId := Suc (nextQuestId s)\<rparr>))"

text \<open>
  The \<open>data\<close> argument of \<open>update\<close> is a partial row: \<open>None\<close> is a key that is absent
  (or \<open>undefined\<close>), which the store leaves alone; on a nullable column \<open>Some None\<close>
  writes NULL.
\<close>

record quest_update_data =
  ud_title :: "string option"
  ud_description :: "string option option"
  ud_status :: "quest_status option"
  ud_experienceReward :: "int option"
  ud_achievementId :: "nat option option"
  ud_cityId :: "nat option"
  ud_organizationTypeId :: "nat option option"
  ud_latitude :: "string option"
  ud_longitude :: "string option"
  ud_address :: "string option option"
  ud_contacts :: "(string \<times> string) list option option"
  ud_coverImage :: "string option option"
  ud_gallery :: "string list option option"
  ud_steps :: "step list option option"

definition emptyUpdateData :: quest_update_data where
  "emptyUpdateData =
     \<lparr>ud_title = None, ud_description = None, ud_status = None,
      ud_experienceReward = None, ud_achievementId = None, ud_cityId = None,
      ud_organizationTypeId = None, ud_latitude = None, ud_longitude = None,
      ud_address = None, ud_contacts = None, ud_coverImage = None,
      ud_gallery = None, ud_steps = None\<rparr>"

definition setField :: "'a option \<Rightarrow> 'a \<Rightarrow> 'a" where
  "setField new old = (case new of None \<Rightarrow> old | Some v \<Rightarrow> v)"

definition applyUpdateData :: "nat \<Rightarrow> quest_update_data \<Rightarrow> quest \<Rightarrow> quest" where
  "applyUpdateData now d q =
     q\<lparr>q_title := setField (ud_title d) (q_title q),
       q_description := setField (ud_description d) (q_description q),
       q_status := setField (ud_status d) (q_status q),
       q_experienceReward := setField (ud_experienceReward d) (q_experienceReward q),
       q_achievementId := setField (ud_achievementId d) (q_achievementId q),
       q_cityId := setField (ud_cityId d) (q_cityId q),
       q_organizationTypeId :=
         setField (ud_organizationTypeId d) (q_organizationTypeId q),
       q_latitude := setField (map_option Some (ud_latitude d)) (q_latitude q),
       q_longitude := setField (map_option Some (ud_longitude d)) (q_longitude q),
       q_address := setField (ud_address d) (q_address q),
       q_contacts := setField (ud_contacts d) (q_contacts q),
       q_coverImage := setField (ud_coverImage d) (q_coverImage q),
       q_gallery := setField (ud_gallery d) (q_gallery q),
       q_steps := setField (ud_steps d) (q_steps q),
       q_updatedAt := now\<rparr>"

definition QuestRepository_update ::
  "nat \<Rightarrow> state \<Rightarrow> nat \<Rightarrow> quest_update_data \<Rightarrow> quest option \<times> state" where
  "QuestRepository_update now s qid d =
     (map_option (applyUpdateData now d) (find (liveQuest qid) (quests s)),
      s\<lparr>quests :=
          map (\<lambda>q. if liveQuest qid q then applyUpdateData now d q else q) (quests s)\<rparr>)"

definition updateStatus ::
  "nat \<Rightarrow> state \<Rightarrow> nat \<Rightarrow> quest_status \<Rightarrow> quest option \<times> state" where
  "updateStatus now s qid st = QuestRepository_update now s qid (emptyUpdateData\<lparr>ud_status := Some st\<rparr>)"

definition softDelete :: "nat \<Rightarrow> state \<Rightarrow> nat \<Rightarrow> quest option \<times> state" where
  "softDelete now s qid =
     (let del = (\<lambda>q. q\<lparr>q_recordStatus := DELETED, q_updatedAt := now\<rparr>)
      in (map_option del (find (liveQuest qid) (quests s)),
          s\<lparr>quests := map (\<lambda>q. if liveQuest qid q then del q else q) (quests s)\<rparr>))"

definition findCategoriesByQuestId :: "state \<Rightarrow> nat \<Rightarrow> (nat \<times> string) list" where
  "findCategoriesByQuestId s qid =
     concat (map (\<lambda>qc. map (\<lambda>c. (cat_id c, cat_name c))
                    (filter (\<lambda>c. cat_id c = qc_categoryId qc \<and> cat_recordStatus c \<noteq> DELETED)
                       (categories s)))
               (filter (\<lambda>qc. qc_questId qc = qid) (questCategories s)))"

definition createQuestCategories :: "state \<Rightarrow> nat \<Rightarrow> nat list \<Rightarrow> state" where
  "createQuestCategories s qid categoryIds =
     (if categoryIds = [] then s
      else s\<lparr>questCategories := questCategories s @
               map (\<lambda>cid. \<lparr>qc_questId = qid, qc_categoryId = cid\<rparr>) categoryIds\<rparr>)"

definition deleteQuestCategories :: "state \<Rightarrow> nat \<Rightarrow> state" where
  "deleteQuestCategories s qid =
     s\<lparr>questCategories := filter (\<lambda>qc. qc_questId qc \<noteq> qid) (questCategories s)\<rparr>"

definition findUserQuest :: "state \<Rightarrow> nat \<Rightarrow> nat \<Rightarrow> user_quest option" where
  "findUserQuest s userId questId =
     find (\<lambda>r. uq_userId r = userId \<and> uq_questId r = questId) (userQuests s)"

definition createUserQuest ::
  "nat \<Rightarrow> state \<Rightarrow> nat \<Rightarrow> nat \<Rightarrow> user_quest_status \<Rightarrow> user_quest \<times> state" where
  "createUserQuest now s userId questId st =
     (let r = \<lparr>uq_id = nextUserQuestId s, uq_userId = userId, uq_questId = questId,
                uq_status = st, uq_startedAt = Some now, uq_completedAt = None\<rparr>
      in (r, s\<lparr>userQuests := userQuests s @ [r],
               nextUserQuestId := Suc (nextUserQuestId s)\<rparr>))"

record user_quest_update =
  uqu_status :: "user_quest_status option"
  uqu_completedAt :: "nat option option"

definition applyUserQuestUpdate :: "user_quest_update \<Rightarrow> user_quest \<Rightarrow> user_quest" where
  "applyUserQuestUpdate d r =
     r\<lparr>uq_status := setField (uqu_status d) (uq_status r),
       uq_completedAt := setField (uqu_completedAt d) (uq_completedAt r)\<rparr>"

definition updateUserQuest ::
  "state \<Rightarrow> nat \<Rightarrow> user_quest_update \<Rightarrow> user_quest option \<times> state" where
  "updateUserQuest s userQuestId d =
     (map_option (applyUserQuestUpdate d) (find (\<lambda>r. uq_id r = userQuestId) (userQuests s)),
      s\<lparr>userQuests :=
          map (\<lambda>r. if uq_id r = userQuestId then applyUserQuestUpdate d r else r)
            (userQuests s)\<rparr>)"

definition deleteUserQuest :: "state \<Rightarrow> nat \<Rightarrow> user_quest option \<times> state" where
  "deleteUserQuest s userQuestId =
     (find (\<lambda>r. uq_id r = userQuestId) (userQuests s),
      s\<lparr>userQuests := filter (\<lambda>r. uq_id r \<noteq> userQuestId) (userQuests s)\<rparr>)"

section \<open>QuestService: participation\<close>

definition findOne :: "state \<Rightarrow> nat \<Rightarrow> error + quest_with_all_data" where
  "findOne s qid =
     (case findById s qid of
        None \<Rightarrow> Inl (NotFound (MsgQuestNotFound qid))
      | Some quest \<Rightarrow> Inr (quest, findCategoriesByQuestId s qid))"

definition joinQuest :: "nat \<Rightarrow> state \<Rightarrow> nat \<Rightarrow> nat \<Rightarrow> user_quest result" where
  "joinQuest now s userId questId =
     (case selectUser s userId of
        None \<Rightarrow> (Inl (NotFound (MsgUserNotFound userId)), s)
      | Some user \<Rightarrow>
     (case findByIdBasic s questId of
        None \<Rightarrow> (Inl (NotFound (MsgQuestNotFound questId)), s)
      | Some quest \<Rightarrow>
     if q_status quest \<noteq> QActive then (Inl (BadRequest MsgQuestNotAvailable), s)
     else
     (case findUserQuest s userId questId of
        Some existingUserQuest \<Rightarrow> (Inl (Conflict MsgAlreadyJoined), s)
      | None \<Rightarrow>
          (let (userQuest, s1) = createUserQuest now s userId questId UQ_in_progress;
               userData = selectUserData s1 userId
           in (Inr userQuest, emit (UserJoined questId userId userData) s1)))))"

definition leaveQuest :: "state \<Rightarrow> nat \<Rightarrow> nat \<Rightarrow> user_quest result" where
  "leaveQuest s userId questId =
     (case selectUser s userId of
        None \<Rightarrow> (Inl (NotFound (MsgUserNotFound userId)), s)
      | Some user \<Rightarrow>
     (case findByIdBasic s questId of
        None \<Rightarrow> (Inl (NotFound (MsgQuestNotFound questId)), s)
      | Some quest \<Rightarrow>
     (case findUserQuest s userId questId of
        None \<Rightarrow> (Inl (NotFound MsgNotParticipating), s)
      | Some userQuest \<Rightarrow>
     if uq_status userQuest = UQ_completed
     then (Inl (BadRequest MsgCannotLeaveCompleted), s)
     else
     (case deleteUserQuest s (uq_id userQuest) of
        (None, s1) \<Rightarrow> (Inl (InternalError MsgLeaveFailed), s1)
      | (Some deletedUserQuest, s1) \<Rightarrow> (Inr deletedUserQuest, s1)))))"

definition completeQuest :: "nat \<Rightarrow> state \<Rightarrow> nat \<Rightarrow> nat \<Rightarrow> user_quest result" where
  "completeQuest now s userId questId =
     (case selectUser s userId of
        None \<Rightarrow> (Inl (NotFound (MsgUserNotFound userId)), s)
      | Some user \<Rightarrow>
     (case findByIdBasic s questId of
        None \<Rightarrow> (Inl (NotFound (MsgQuestNotFound questId)), s)
      | Some quest \<Rightarrow>
     (case findUserQuest s userId questId of
        None \<Rightarrow> (Inl (NotFound MsgNotStarted), s)
      | Some userQuest \<Rightarrow>
     if uq_status userQuest = UQ_completed
     then (Inl (Conflict MsgAlreadyCompleted), s)
     else
     (case updateUserQuest s (uq_id userQuest)
             \<lparr>uqu_status = Some UQ_completed, uqu_completedAt = Some (Some now)\<rparr> of
        (None, s1) \<Rightarrow> (Inl (InternalError MsgCompleteFailed), s1)
      | (Some completedQuest, s1) \<Rightarrow>
          (let newExperience = u_experience user + q_experienceReward quest;
               s2 = s1\<lparr>users := map (\<lambda>u. if u_id u = userId
                                           then u\<lparr>u_experience := newExperience\<rparr> else u)
                                   (users s1)\<rparr>;
               s3 = (case selectUserAchievement s2 userId (q_achievementId quest) of
                       None \<Rightarrow> insertUserAchievement now s2 userId (q_achievementId quest)
                     | Some existingUserAchievement \<Rightarrow> s2);
               questData = selectQuestData s3 questId
           in (Inr completedQuest, emit (QuestCompleted questId userId questData) s3))))))"

section \<open>QuestService: requirement progress\<close>

text \<open>
  \<open>stepIndex\<close> and \<open>currentValue\<close> are integers. A stored step is always an object,
  so the source's \<open>if (!step)\<close> after the bounds check never fires; a stored requirement
  may lack \<open>targetValue\<close>. After the write and the event the operation re-reads the
  quest through \<open>findOne\<close>, whose error is raised with the write already made.
\<close>

definition updateRequirementCurrentValue ::
  "nat \<Rightarrow> state \<Rightarrow> nat \<Rightarrow> int \<Rightarrow> int \<Rightarrow> quest_with_all_data result" where
  "updateRequirementCurrentValue now s questId stepIndex newCurrentValue =
     (case findByIdBasic s questId of
        None \<Rightarrow> (Inl (NotFound (MsgQuestNotFound questId)), s)
      | Some quest \<Rightarrow>
     if q_status quest \<noteq> QActive
     then (Inl (BadRequest (MsgQuestStatusNotEditable (q_status quest))), s)
     else
     (case q_steps quest of
        None \<Rightarrow> (Inl (BadRequest MsgNoSteps), s)
      | Some steps \<Rightarrow>
     if stepIndex < 0 \<or> stepIndex \<ge> int (length steps)
     then (Inl (BadRequest (MsgStepIndexOutOfRange stepIndex (length steps))), s)
     else
     (let step = steps ! nat stepIndex in
     (case st_requirement step of
        None \<Rightarrow> (Inl (BadRequest (MsgNoRequirement stepIndex)), s)
      | Some requirement \<Rightarrow>
     (case targetValue requirement of
        None \<Rightarrow> (Inl (BadRequest MsgNoTargetValue), s)
      | Some target \<Rightarrow>
     if newCurrentValue < 0 then (Inl (BadRequest MsgCurrentValueNegative), s)
     else if newCurrentValue > target
     then (Inl (BadRequest (MsgCurrentValueExceedsTarget newCurrentValue target)), s)
     else
     (let updatedSteps =
            steps[nat stepIndex :=
                    step\<lparr>st_requirement :=
                           Some (requirement\<lparr>currentValue := Some newCurrentValue\<rparr>)\<rparr>]
      in
      (case QuestRepository_update now s questId (emptyUpdateData\<lparr>ud_steps := Some (Some updatedSteps)\<rparr>) of
         (None, s1) \<Rightarrow> (Inl (NotFound (MsgQuestNotFound questId)), s1)
       | (Some updatedQuest, s1) \<Rightarrow>
           (let s2 = emit (RequirementUpdated questId (q_steps updatedQuest)) s1
            in (findOne s2 questId, s2)))))))))"

definition archiveQuest :: "nat \<Rightarrow> state \<Rightarrow> nat \<Rightarrow> quest_with_all_data result" where
  "archiveQuest now s qid =
     (case findByIdBasic s qid of
        None \<Rightarrow> (Inl (NotFound (MsgQuestNotFound qid)), s)
      | Some existingQuest \<Rightarrow>
          (case updateStatus now s qid QArchived of
             (None, s1) \<Rightarrow> (Inl (NotFound (MsgQuestNotFound qid)), s1)
           | (Some quest, s1) \<Rightarrow> (findOne s1 qid, s1)))"

definition unarchiveQuest :: "nat \<Rightarrow> state \<Rightarrow> nat \<Rightarrow> quest_with_all_data result" where
  "unarchiveQuest now s qid =
     (case findByIdBasic s qid of
        None \<Rightarrow> (Inl (NotFound (MsgQuestNotFound qid)), s)
      | Some existingQuest \<Rightarrow>
          (case updateStatus now s qid QActive of
             (None, s1) \<Rightarrow> (Inl (NotFound (MsgQuestNotFound qid)), s1)
           | (Some quest, s1) \<Rightarrow> (findOne s1 qid, s1)))"

definition remove :: "nat \<Rightarrow> state \<Rightarrow> nat \<Rightarrow> quest result" where
  "remove now s qid =
     (case softDelete now s qid of
        (None, s1) \<Rightarrow> (Inl (NotFound (MsgQuestNotFound qid)), s1)
      | (Some quest, s1) \<Rightarrow> (Inr quest, s1))"

section \<open>QuestService: update\<close>

text \<open>
  The patch: \<open>None\<close> is \<open>undefined\<close> (leave the field alone), \<open>Some None\<close> is an
  explicit \<open>null\<close> on a nullable field. Latitude and longitude are numbers that the
  service stores through \<open>toString()\<close>; the patch carries that decimal rendering.
\<close>

record update_quest_dto =
  d_title :: "string option"
  d_description :: "string option option"
  d_status :: "quest_status option"
  d_experienceReward :: "int option"
  d_achievementId :: "nat option option"
  d_cityId :: "nat option"
  d_organizationTypeId :: "nat option option"
  d_latitude :: "string option"
  d_longitude :: "string option"
  d_address :: "string option option"
  d_contacts :: "(string \<times> string) list option option"
  d_coverImage :: "string option option"
  d_gallery :: "string list option option"
  d_steps :: "step list option option"
  d_categoryIds :: "nat list option"

definition emptyPatch :: update_quest_dto where
  "emptyPatch =
     \<lparr>d_title = None, d_description = None, d_status = None,
      d_experienceReward = None, d_achievementId = None, d_cityId = None,
      d_organizationTypeId = None, d_latitude = None, d_longitude = None,
      d_address = None, d_contacts = None, d_coverImage = None,
      d_gallery = None, d_steps = None, d_categoryIds = None\<rparr>"

text \<open>\<open>xs[i]\<close> in the source language: \<open>undefined\<close> past the end.\<close>

definition nth_opt :: "'a list \<Rightarrow> nat \<Rightarrow> 'a option" where
  "nth_opt xs i = (if i < length xs then Some (xs ! i) else None)"

definition stepRequirement :: "step option \<Rightarrow> requirement option" where
  "stepRequirement st = (case st of None \<Rightarrow> None | Some x \<Rightarrow> st_requirement x)"

definition stepRequirementChanged :: "step option \<Rightarrow> step option \<Rightarrow> bool" where
  "stepRequirementChanged newStep oldStep =
     (case (stepRequirement newStep, stepRequirement oldStep) of
        (None, None) \<Rightarrow> False
      | (Some newReq, None) \<Rightarrow> True
      | (None, Some oldReq) \<Rightarrow> True
      | (Some newReq, Some oldReq) \<Rightarrow>
          (currentValue newReq \<noteq> None \<and> currentValue newReq \<noteq> currentValue oldReq) \<or>
          (targetValue newReq \<noteq> None \<and> targetValue newReq \<noteq> targetValue oldReq))"

function requirementsChangedLoop :: "step list \<Rightarrow> step list \<Rightarrow> nat \<Rightarrow> nat \<Rightarrow> bool" where
  "requirementsChangedLoop newSteps oldSteps i maxLength =
     (if i < maxLength
      then (if stepRequirementChanged (nth_opt newSteps i) (nth_opt oldSteps i) then True
            else requirementsChangedLoop newSteps oldSteps (Suc i) maxLength)
      else False)"
  by pat_completeness auto
termination
  by (relation "measure (\<lambda>(newSteps, oldSteps, i, maxLength). maxLength - i)") auto

declare requirementsChangedLoop.simps [simp del]

definition requirementsChanged :: "step list option \<Rightarrow> step list option option \<Rightarrow> bool" where
  "requirementsChanged oldSteps patchSteps =
     (case patchSteps of
        None \<Rightarrow> False
      | Some newSteps \<Rightarrow>
          (case (oldSteps, newSteps) of
             (Some old, Some new) \<Rightarrow>
               requirementsChangedLoop new old 0 (max (length old) (length new))
           | (None, Some new) \<Rightarrow> list_ex (\<lambda>st. st_requirement st \<noteq> None) new
           | (Some old, None) \<Rightarrow> list_ex (\<lambda>st. st_requirement st \<noteq> None) old
           | (None, None) \<Rightarrow> False))"

definition buildUpdateData :: "update_quest_dto \<Rightarrow> quest_update_data" where
  "buildUpdateData dto =
     \<lparr>ud_title = d_title dto, ud_description = d_description dto,
      ud_status = d_status dto, ud_experienceReward = d_experienceReward dto,
      ud_achievementId = d_achievementId dto, ud_cityId = d_cityId dto,
      ud_organizationTypeId = d_organizationTypeId dto,
      ud_latitude = d_latitude dto, ud_longitude = d_longitude dto,
      ud_address = d_address dto, ud_contacts = d_contacts dto,
      ud_coverImage = d_coverImage dto, ud_gallery = d_gallery dto,
      ud_steps = d_steps dto\<rparr>"

text \<open>The checks of \<open>update\<close> that run before the write, in the source's order.\<close>

definition checkAchievementId :: "state \<Rightarrow> update_quest_dto \<Rightarrow> error option" where
  "checkAchievementId s dto =
     (case d_achievementId dto of
        Some (Some aid) \<Rightarrow>
          (case selectAchievement s aid of
             None \<Rightarrow> Some (NotFound (MsgAchievementNotFound aid))
           | Some achievement \<Rightarrow> None)
      | _ \<Rightarrow> None)"

definition checkCityId :: "state \<Rightarrow> update_quest_dto \<Rightarrow> error option" where
  "checkCityId s dto =
     (case d_cityId dto of
        Some cid \<Rightarrow>
          (case selectCity s cid of
             None \<Rightarrow> Some (NotFound (MsgCityNotFound cid))
           | Some city \<Rightarrow> None)
      | None \<Rightarrow> None)"

definition checkOrganizationTypeId :: "state \<Rightarrow> update_quest_dto \<Rightarrow> error option" where
  "checkOrganizationTypeId s dto =
     (case d_organizationTypeId dto of
        Some (Some oid) \<Rightarrow>
          (case selectOrganizationType s oid of
             None \<Rightarrow> Some (NotFound (MsgOrganizationTypeNotFound oid))
           | Some orgType \<Rightarrow> None)
      | _ \<Rightarrow> None)"

definition checkGallery :: "update_quest_dto \<Rightarrow> error option" where
  "checkGallery dto =
     (case d_gallery dto of
        Some (Some gallery) \<Rightarrow>
          (if length gallery > 10 then Some (BadRequest MsgGalleryTooLarge) else None)
      | _ \<Rightarrow> None)"

definition updateValidation :: "state \<Rightarrow> update_quest_dto \<Rightarrow> error option" where
  "updateValidation s dto =
     (case checkAchievementId s dto of
        Some e \<Rightarrow> Some e
      | None \<Rightarrow>
     (case checkCityId s dto of
        Some e \<Rightarrow> Some e
      | None \<Rightarrow>
     (case checkOrganizationTypeId s dto of
        Some e \<Rightarrow> Some e
      | None \<Rightarrow> checkGallery dto)))"

definition update :: "nat \<Rightarrow> state \<Rightarrow> nat \<Rightarrow> update_quest_dto \<Rightarrow> quest_with_all_data result" where
  "update now s qid dto =
     (case findByIdBasic s qid of
        None \<Rightarrow> (Inl (NotFound (MsgQuestNotFound qid)), s)
      | Some existingQuest \<Rightarrow>
     (case updateValidation s dto of
        Some e \<Rightarrow> (Inl e, s)
      | None \<Rightarrow>
     (let changed = requirementsChanged (q_steps existingQuest) (d_steps dto) in
     (case QuestRepository_update now s qid (buildUpdateData dto) of
        (None, s1) \<Rightarrow> (Inl (NotFound (MsgQuestNotFound qid)), s1)
      | (Some quest, s1) \<Rightarrow>
     (let s2 = (if changed then emit (RequirementUpdated qid (q_steps quest)) s1 else s1) in
     (case d_categoryIds dto of
        None \<Rightarrow> (findOne s2 qid, s2)
      | Some categoryIds \<Rightarrow>
          (let s3 = deleteQuestCategories s2 qid in
           if categoryIds = [] then (findOne s3 qid, s3)
           else if length (selectCategories s3 categoryIds) \<noteq> length categoryIds
           then (Inl (NotFound MsgCategoriesNotFound), s3)
           else (let s4 = createQuestCategories s3 qid categoryIds
                 in (findOne s4 qid, s4)))))))))"

section \<open>QuestService: create\<close>

record achievement_payload =
  ap_title :: string
  ap_description :: "string option"
  ap_icon :: "string option"

record create_quest_dto =
  cd_title :: string
  cd_description :: "string option"
  cd_status :: "quest_status option"
  cd_experienceReward :: "int option"
  cd_achievement :: "achievement_payload option"
  cd_cityId :: nat
  cd_organizationTypeId :: "nat option"
  cd_categoryIds :: "nat list option"
  cd_latitude :: "string option"
  cd_longitude :: "string option"
  cd_address :: "string option"
  cd_contacts :: "(string \<times> string) list option"
  cd_coverImage :: "string option"
  cd_gallery :: "string list option"
  cd_steps :: "step list option"

text \<open>The minimum level of a quest's creator.\<close>

definition minCreatorLevel :: int where
  "minCreatorLevel = 5"

definition insertAchievement :: "state \<Rightarrow> achievement_payload \<Rightarrow> achievement \<times> state" where
  "insertAchievement s p =
     (let a = \<lparr>a_id = nextAchievementId s, a_title = ap_title p,
                a_description = ap_description p, a_icon = ap_icon p,
                a_rarity = Private, a_questId = None, a_recordStatus = CREATED\<rparr>
      in (a, s\<lparr>achievements := achievements s @ [a],
               nextAchievementId := Suc (nextAchievementId s)\<rparr>))"

definition setAchievementQuestId :: "state \<Rightarrow> nat \<Rightarrow> nat \<Rightarrow> state" where
  "setAchievementQuestId s aid qid =
     s\<lparr>achievements :=
         map (\<lambda>a. if a_id a = aid then a\<lparr>a_questId := Some qid\<rparr> else a) (achievements s)\<rparr>"

text \<open>
  The checks of \<open>create\<close> that follow the insert of the inline achievement: city,
  organization type (skipped for a falsy id), categories (the number of live
  categories among the ids against the number of ids), gallery size.
\<close>

definition checkCreateOrganizationType :: "state \<Rightarrow> create_quest_dto \<Rightarrow> error option" where
  "checkCreateOrganizationType s dto =
     (case cd_organizationTypeId dto of
        None \<Rightarrow> None
      | Some oid \<Rightarrow>
          (if oid \<noteq> 0 \<and> selectOrganizationType s oid = None
           then Some (NotFound (MsgOrganizationTypeNotFound oid)) else None))"

definition checkCreateCategories :: "state \<Rightarrow> create_quest_dto \<Rightarrow> error option" where
  "checkCreateCategories s dto =
     (case cd_categoryIds dto of
        None \<Rightarrow> None
      | Some ids \<Rightarrow>
          (if ids \<noteq> [] \<and> length (selectCategories s ids) \<noteq> length ids
           then Some (NotFound MsgCategoriesNotFound) else None))"

definition checkCreateGallery :: "create_quest_dto \<Rightarrow> error option" where
  "checkCreateGallery dto =
     (case cd_gallery dto of
        None \<Rightarrow> None
      | Some gallery \<Rightarrow>
          (if length gallery > 10 then Some (BadRequest MsgGalleryTooLarge) else None))"

definition createValidation :: "state \<Rightarrow> create_quest_dto \<Rightarrow> error + city" where
  "createValidation s dto =
     (case selectCity s (cd_cityId dto) of
        None \<Rightarrow> Inl (NotFound (MsgCityNotFound (cd_cityId dto)))
      | Some city \<Rightarrow>
     (case checkCreateOrganizationType s dto of
        Some e \<Rightarrow> Inl e
      | None \<Rightarrow>
     (case checkCreateCategories s dto of
        Some e \<Rightarrow> Inl e
      | None \<Rightarrow>
     (case checkCreateGallery dto of
        Some e \<Rightarrow> Inl e
      | None \<Rightarrow> Inr city))))"

definition createInlineAchievement :: "state \<Rightarrow> create_quest_dto \<Rightarrow> nat option \<times> state" where
  "createInlineAchievement s dto =
     (case cd_achievement dto of
        None \<Rightarrow> (None, s)
      | Some p \<Rightarrow> (let (a, s') = insertAchievement s p in (Some (a_id a), s')))"

definition questInsertData ::
  "create_quest_dto \<Rightarrow> nat \<Rightarrow> nat option \<Rightarrow> city \<Rightarrow> quest_insert" where
  "questInsertData dto userId achievementId city =
     \<lparr>qi_title = cd_title dto, qi_description = cd_description dto,
      qi_status = (case cd_status dto of None \<Rightarrow> QActive | Some st \<Rightarrow> st),
      qi_experienceReward = (case cd_experienceReward dto of None \<Rightarrow> 0 | Some r \<Rightarrow> r),
      qi_achievementId = achievementId, qi_ownerId = userId,
      qi_cityId = cd_cityId dto,
      qi_organizationTypeId = cd_organizationTypeId dto,
      qi_latitude = (case cd_latitude dto of None \<Rightarrow> ct_latitude city | Some v \<Rightarrow> Some v),
      qi_longitude = (case cd_longitude dto of None \<Rightarrow> ct_longitude city | Some v \<Rightarrow> Some v),
      qi_address = cd_address dto, qi_contacts = cd_contacts dto,
      qi_coverImage = cd_coverImage dto, qi_gallery = cd_gallery dto,
      qi_steps = cd_steps dto\<rparr>"

text \<open>\<open>if (achievementId)\<close>: the back-patch of the achievement's quest is skipped for a falsy id.\<close>

definition bindAchievement :: "state \<Rightarrow> nat option \<Rightarrow> nat \<Rightarrow> state" where
  "bindAchievement s achievementId qid =
     (case achievementId of
        None \<Rightarrow> s
      | Some aid \<Rightarrow> if aid \<noteq> 0 then setAchievementQuestId s aid qid else s)"

definition linkCategories :: "state \<Rightarrow> create_quest_dto \<Rightarrow> nat \<Rightarrow> state" where
  "linkCategories s dto qid =
     (case cd_categoryIds dto of
        None \<Rightarrow> s
      | Some ids \<Rightarrow> if ids \<noteq> [] then createQuestCategories s qid ids else s)"

text \<open>
  The creator joins the new quest; UserJoined is emitted, then QuestCreated. An insert
  always returns its row, so the source's \<open>throw new Error\<close> after the insert of the
  achievement, of the quest and of the participation row never fire.
\<close>

definition autoJoin :: "nat \<Rightarrow> state \<Rightarrow> nat \<Rightarrow> nat \<Rightarrow> quest_with_all_data \<Rightarrow> state" where
  "autoJoin now s userId qid questWithAllData =
     (let (userQuest, s5) = createUserQuest now s userId qid UQ_in_progress;
          s6 = emit (UserJoined qid userId (selectUserData s5 userId)) s5
      in emit (QuestCreated qid questWithAllData) s6)"

definition create :: "nat \<Rightarrow> state \<Rightarrow> create_quest_dto \<Rightarrow> nat \<Rightarrow> quest_with_all_data result" where
  "create now s dto userId =
     (case selectUser s userId of
        None \<Rightarrow> (Inl (NotFound (MsgUserNotFound userId)), s)
      | Some user \<Rightarrow>
     if u_level user < minCreatorLevel then (Inl (Forbidden MsgLevelTooLow), s)
     else
     (let (achievementId, s1) = createInlineAchievement s dto in
     (case createValidation s1 dto of
        Inl e \<Rightarrow> (Inl e, s1)
      | Inr city \<Rightarrow>
     (let (quest, s2) =
            QuestRepository_create now s1 (questInsertData dto userId achievementId city);
          s3 = bindAchievement s2 achievementId (q_id quest);
          s4 = linkCategories s3 dto (q_id quest)
      in
     (case findById s4 (q_id quest) of
        None \<Rightarrow> (Inl (InternalError MsgFetchCreatedQuestFailed), s4)
      | Some questWithAchievement \<Rightarrow>
     (let questWithAllData =
            (questWithAchievement, findCategoriesByQuestId s4 (q_id quest))
      in (Inr questWithAllData,
          autoJoin now s4 userId (q_id quest) questWithAllData)))))))"

section \<open>AchievementService\<close>

text \<open>
  Modelled from the spec: the achievement repository (\<open>achievement.repository.ts\<close>),
  of which the repository holds only the tests. The spec's Achievement Store loads and
  saves achievements by id and returns the record or nothing; titles are unique among
  non-deleted achievements; a private achievement references an existing, non-deleted
  quest. Each operation is the query its name and its tests describe, over non-deleted
  rows.
\<close>

definition liveAchievement :: "achievement \<Rightarrow> bool" where
  "liveAchievement a \<longleftrightarrow> a_recordStatus a \<noteq> DELETED"

definition AchievementRepository_findByTitle :: "state \<Rightarrow> string \<Rightarrow> achievement option" where
  "AchievementRepository_findByTitle s title =
     find (\<lambda>a. a_title a = title \<and> liveAchievement a) (achievements s)"

definition AchievementRepository_findByTitleExcludingId ::
  "state \<Rightarrow> string \<Rightarrow> nat \<Rightarrow> achievement option" where
  "AchievementRepository_findByTitleExcludingId s title aid =
     find (\<lambda>a. a_title a = title \<and> a_id a \<noteq> aid \<and> liveAchievement a) (achievements s)"

definition AchievementRepository_findById :: "state \<Rightarrow> nat \<Rightarrow> achievement option" where
  "AchievementRepository_findById s aid =
     find (\<lambda>a. a_id a = aid \<and> liveAchievement a) (achievements s)"

definition AchievementRepository_findQuestById :: "state \<Rightarrow> nat \<Rightarrow> quest option" where
  "AchievementRepository_findQuestById s qid = find (liveQuest qid) (quests s)"

record create_achievement_dto =
  ca_title :: string
  ca_description :: "string option"
  ca_icon :: "string option"
  ca_rarity :: rarity
  ca_questId :: "nat option option"

record update_achievement_dto =
  upd_title :: "string option"
  upd_description :: "string option"
  upd_icon :: "string option"
  upd_rarity :: "rarity option"
  upd_questId :: "nat option option"

definition AchievementRepository_create ::
  "state \<Rightarrow> create_achievement_dto \<Rightarrow> achievement \<times> state" where
  "AchievementRepository_create s dto =
     (let a = \<lparr>a_id = nextAchievementId s, a_title = ca_title dto,
                a_description = ca_description dto, a_icon = ca_icon dto,
                a_rarity = ca_rarity dto,
                a_questId = (case ca_questId dto of None \<Rightarrow> None | Some v \<Rightarrow> v),
                a_recordStatus = CREATED\<rparr>
      in (a, s\<lparr>achievements := achievements s @ [a],
               nextAchievementId := Suc (nextAchievementId s)\<rparr>))"

definition applyAchievementUpdate :: "update_achievement_dto \<Rightarrow> achievement \<Rightarrow> achievement" where
  "applyAchievementUpdate dto a =
     a\<lparr>a_title := setField (upd_title dto) (a_title a),
       a_description := setField (map_option Some (upd_description dto)) (a_description a),
       a_icon := setField (map_option Some (upd_icon dto)) (a_icon a),
       a_rarity := setField (upd_rarity dto) (a_rarity a),
       a_questId := setField (upd_questId dto) (a_questId a)\<rparr>"

definition AchievementRepository_update ::
  "state \<Rightarrow> nat \<Rightarrow> update_achievement_dto \<Rightarrow> achievement option \<times> state" where
  "AchievementRepository_update s aid dto =
     (map_option (applyAchievementUpdate dto) (AchievementRepository_findById s aid),
      s\<lparr>achievements :=
          map (\<lambda>a. if a_id a = aid \<and> liveAchievement a then applyAchievementUpdate dto a else a)
            (achievements s)\<rparr>)"

text \<open>\<open>!questId\<close>: absent, null and zero are falsy.\<close>

fun falsyId :: "nat option \<Rightarrow> bool" where
  "falsyId None = True"
| "falsyId (Some q) = (q = 0)"

definition AchievementService_create ::
  "state \<Rightarrow> create_achievement_dto \<Rightarrow> achievement result" where
  "AchievementService_create s dto =
     (case AchievementRepository_findByTitle s (ca_title dto) of
        Some existingAchievement \<Rightarrow> (Inl (Conflict MsgTitleTaken), s)
      | None \<Rightarrow>
     if ca_rarity dto = Private
     then
       (case ca_questId dto of
          Some (Some qid) \<Rightarrow>
            (if qid = 0 then (Inl (BadRequest MsgPrivateNeedsQuest), s)
             else
               (case AchievementRepository_findQuestById s qid of
                  None \<Rightarrow> (Inl (NotFound (MsgQuestNotFound qid)), s)
                | Some quest \<Rightarrow>
                    (let (a, s1) = AchievementRepository_create s dto in (Inr a, s1))))
        | _ \<Rightarrow> (Inl (BadRequest MsgPrivateNeedsQuest), s))
     else
       (case ca_questId dto of
          Some (Some qid) \<Rightarrow> (Inl (BadRequest MsgNonPrivateForbidsQuest), s)
        | _ \<Rightarrow> (let (a, s1) = AchievementRepository_create s dto in (Inr a, s1))))"

definition saveAchievement ::
  "state \<Rightarrow> nat \<Rightarrow> update_achievement_dto \<Rightarrow> achievement result" where
  "saveAchievement s aid dto =
     (case AchievementRepository_update s aid dto of
        (None, s1) \<Rightarrow> (Inl (NotFound (MsgAchievementNotFound aid)), s1)
      | (Some achievement, s1) \<Rightarrow> (Inr achievement, s1))"

definition titleConflict :: "state \<Rightarrow> nat \<Rightarrow> update_achievement_dto \<Rightarrow> bool" where
  "titleConflict s aid dto =
     (case upd_title dto of
        None \<Rightarrow> False
      | Some t \<Rightarrow> t \<noteq> [] \<and> AchievementRepository_findByTitleExcludingId s t aid \<noteq> None)"

definition finalRarity :: "update_achievement_dto \<Rightarrow> achievement \<Rightarrow> rarity" where
  "finalRarity dto currentAchievement =
     (case upd_rarity dto of Some r \<Rightarrow> r | None \<Rightarrow> a_rarity currentAchievement)"

definition AchievementService_update ::
  "state \<Rightarrow> nat \<Rightarrow> update_achievement_dto \<Rightarrow> achievement result" where
  "AchievementService_update s aid dto =
     (case AchievementRepository_findById s aid of
        None \<Rightarrow> (Inl (NotFound (MsgAchievementNotFound aid)), s)
      | Some currentAchievement \<Rightarrow>
     if titleConflict s aid dto then (Inl (Conflict MsgTitleTaken), s)
     else if finalRarity dto currentAchievement = Private
     then
       (case upd_questId dto of
          Some None \<Rightarrow> (Inl (BadRequest MsgPrivateNeedsQuest), s)
        | Some (Some qid) \<Rightarrow>
            (if qid = 0 then (Inl (BadRequest MsgPrivateNeedsQuest), s)
             else
               (case AchievementRepository_findQuestById s qid of
                  None \<Rightarrow> (Inl (NotFound (MsgQuestNotFound qid)), s)
                | Some quest \<Rightarrow> saveAchievement s aid dto))
        | None \<Rightarrow>
            (if falsyId (a_questId currentAchievement)
             then (Inl (BadRequest MsgPrivateNeedsQuest), s)
             else saveAchievement s aid dto))
     else
       (if upd_rarity dto \<noteq> None \<and> upd_rarity dto \<noteq> Some Private
        then saveAchievement s aid (dto\<lparr>upd_questId := Some None\<rparr>)
        else
          (case upd_questId dto of
             Some (Some qid) \<Rightarrow> (Inl (BadRequest MsgNonPrivateForbidsQuest), s)
           | _ \<Rightarrow> saveAchievement s aid dto)))"

text \<open>
  The invariant of the achievement binder, for one achievement: with a \<open>questId\<close> it is
  private and the quest exists and is not deleted; without one it is not private. So an
  achievement is private exactly when its \<open>questId\<close> is set and names a live quest, and
  any other rarity has no \<open>questId\<close>. \<open>achievementStore\<close> says so of every non-deleted
  achievement, together with what a serial primary key gives: ids are distinct and lie
  below the counter.
\<close>

definition rarityQuestInvariant :: "state \<Rightarrow> achievement \<Rightarrow> bool" where
  "rarityQuestInvariant s a \<longleftrightarrow>
     (case a_questId a of
        None \<Rightarrow> a_rarity a \<noteq> Private
      | Some qid \<Rightarrow> a_rarity a = Private \<and> AchievementRepository_findQuestById s qid \<noteq> None)"



section \<open>Example states\<close>

text \<open>
  Scenario A of the specification: one user of level 5, one active quest with a single
  step whose requirement stands at 0 of 10 and an experience reward of 50, no bound
  achievement, and the user's participation in progress.
\<close>

definition user1 :: user where
  "user1 = \<lparr>u_id = 1, u_firstName = ''Ada'', u_lastName = ''Quest'',
             u_email = ''ada@example.org'', u_level = 5, u_experience = 0,
             u_recordStatus = CREATED\<rparr>"

definition step1 :: step where
  "step1 = \<lparr>st_title = ''S1'', st_description = None, st_status = ''pending'',
             st_progress = 0,
             st_requirement = Some \<lparr>currentValue = Some 0, targetValue = Some 10\<rparr>,
             st_deadline = None\<rparr>"

definition quest1 :: quest where
  "quest1 = \<lparr>q_id = 1, q_title = ''Clean the park'', q_description = None,
              q_status = QActive, q_experienceReward = 50, q_achievementId = None,
              q_ownerId = 1, q_cityId = 1, q_organizationTypeId = None,
              q_latitude = None, q_longitude = None, q_address = None,
              q_contacts = None, q_coverImage = None, q_gallery = Some [''a.png''],
              q_steps = Some [step1], q_recordStatus = CREATED, q_createdAt = 0,
              q_updatedAt = 0\<rparr>"

definition city1 :: city where
  "city1 = \<lparr>ct_id = 1, ct_name = ''Town'', ct_latitude = None, ct_longitude = None,
             ct_recordStatus = CREATED\<rparr>"

definition participation1 :: user_quest where
  "participation1 = \<lparr>uq_id = 1, uq_userId = 1, uq_questId = 1,
                      uq_status = UQ_in_progress, uq_startedAt = Some 0,
                      uq_completedAt = None\<rparr>"

definition scenarioState :: state where
  "scenarioState =
     \<lparr>users = [user1], quests = [quest1], achievements = [],
      userQuests = [participation1], userAchievements = [], cities = [city1],
      organizationTypes = [], categories = [], questCategories = [],
      nextQuestId = 2, nextAchievementId = 1, nextUserQuestId = 2,
      nextUserAchievementId = 1, events = []\<rparr>"

text \<open>The same store with the quest archived, its requirement still at 0 of 10.\<close>

definition archivedState :: state where
  "archivedState = scenarioState\<lparr>quests := [quest1\<lparr>q_status := QArchived\<rparr>]\<rparr>"

text \<open>The scenario with the quest's owner soft-deleted.\<close>

definition orphanState :: state where
  "orphanState = scenarioState\<lparr>users := [user1\<lparr>u_recordStatus := DELETED\<rparr>]\<rparr>"

text \<open>A quest draft with an inline achievement and a city that does not exist.\<close>

definition questDraft :: create_quest_dto where
  "questDraft =
     \<lparr>cd_title = ''Plant trees'', cd_description = None, cd_status = None,
      cd_experienceReward = Some 20,
      cd_achievement = Some \<lparr>ap_title = ''Gardener'', ap_description = None, ap_icon = None\<rparr>,
      cd_cityId = 99, cd_organizationTypeId = None, cd_categoryIds = None,
      cd_latitude = None, cd_longitude = None, cd_address = None, cd_contacts = None,
      cd_coverImage = None, cd_gallery = None, cd_steps = None\<rparr>"

text \<open>The scenario with one category, attached to the quest.\<close>

definition taggedState :: state where
  "taggedState =
     scenarioState\<lparr>categories := [\<lparr>cat_id = 1, cat_name = ''Ecology'', cat_recordStatus = CREATED\<rparr>],
                   questCategories := [\<lparr>qc_questId = 1, qc_categoryId = 1\<rparr>]\<rparr>"

text \<open>
  The scenario with two achievements: a private one bound to quest 1 and a common one.
\<close>

definition badge1 :: achievement where
  "badge1 = \<lparr>a_id = 1, a_title = ''Park keeper'', a_description = None, a_icon = None,
              a_rarity = Private, a_questId = Some 1, a_recordStatus = CREATED\<rparr>"

definition badge2 :: achievement where
  "badge2 = \<lparr>a_id = 2, a_title = ''First steps'', a_description = None, a_icon = None,
              a_rarity = Common, a_questId = None, a_recordStatus = CREATED\<rparr>"

definition badgeState :: state where
  "badgeState = scenarioState\<lparr>achievements := [badge1, badge2], nextAchievementId := 3\<rparr>"

definition emptyAchievementPatch :: update_achievement_dto where
  "emptyAchievementPatch =
     \<lparr>upd_title = None, upd_description = None, upd_icon = None, upd_rarity = None,
      upd_questId = None\<rparr>"

definition badgeDraft :: create_achievement_dto where
  "badgeDraft = \<lparr>ca_title = ''Volunteer'', ca_description = None, ca_icon = None,
                  ca_rarity = Private, ca_questId = Some (Some 1)\<rparr>"

section \<open>The engine as a whole\<close>

text \<open>
  One call of a service operation, and what it leaves in the store whether it returns
  or throws; a history of the engine is a sequence of calls, each at its own time.
\<close>

datatype operation =
    Create create_quest_dto nat
  | Update nat update_quest_dto
  | Remove nat
  | JoinQuest nat nat
  | LeaveQuest nat nat
  | CompleteQuest nat nat
  | UpdateRequirementCurrentValue nat int int
  | ArchiveQuest nat
  | UnarchiveQuest nat
  | AchievementCreate create_achievement_dto
  | AchievementUpdate nat update_achievement_dto

fun perform :: "nat \<Rightarrow> state \<Rightarrow> operation \<Rightarrow> state" where
  "perform now s (Create dto userId) = snd (create now s dto userId)"
| "perform now s (Update qid dto) = snd (update now s qid dto)"
| "perform now s (Remove qid) = snd (remove now s qid)"
| "perform now s (JoinQuest userId questId) = snd (joinQuest now s userId questId)"
| "perform now s (LeaveQuest userId questId) = snd (leaveQuest s userId questId)"
| "perform now s (CompleteQuest userId questId) = snd (completeQuest now s userId questId)"
| "perform now s (UpdateRequirementCurrentValue questId stepIndex v) =
     snd (updateRequirementCurrentValue now s questId stepIndex v)"
| "perform now s (ArchiveQuest qid) = snd (archiveQuest now s qid)"
| "perform now s (UnarchiveQuest qid) = snd (unarchiveQuest now s qid)"
| "perform now s (AchievementCreate dto) = snd (AchievementService_create s dto)"
| "perform now s (AchievementUpdate aid dto) = snd (AchievementService_update s aid dto)"

fun run :: "state \<Rightarrow> (nat \<times> operation) list \<Rightarrow> state" where
  "run s [] = s"
| "run s ((now, call) # calls) = run (perform now s call) calls"

text \<open>
  Join exclusivity: no two participation rows for the same (user, quest) pair. The
  serial counter of quests lies above every quest id in use, in the quests table and
  in the participation rows.
\<close>

definition participationKey :: "user_quest \<Rightarrow> nat \<times> nat" where
  "participationKey r = (uq_userId r, uq_questId r)"

definition joinExclusive :: "state \<Rightarrow> bool" where
  "joinExclusive s \<longleftrightarrow> distinct (map participationKey (userQuests s))"

definition questIdsAllocated :: "state \<Rightarrow> bool" where
  "questIdsAllocated s \<longleftrightarrow>
     (\<forall>i \<in> set (map q_id (quests s)). i < nextQuestId s) \<and>
     (\<forall>r \<in> set (userQuests s). uq_questId r < nextQuestId s)"

text \<open>
  Two stores agree on what the two invariants read: the participation rows, the quest
  counter and the ids of the quest rows.
\<close>

definition sameParticipation :: "state \<Rightarrow> state \<Rightarrow> bool" where
  "sameParticipation s s' \<longleftrightarrow>
     userQuests s' = userQuests s \<and> nextQuestId s' = nextQuestId s \<and>
     map q_id (quests s') = map q_id (quests s)"

section \<open>Properties\<close>

lemmas scenario_defs =
  scenarioState_def archivedState_def orphanState_def taggedState_def questDraft_def
  badgeState_def badge1_def badge2_def emptyAchievementPatch_def badgeDraft_def user1_def quest1_def step1_def city1_def
  participation1_def

lemmas complete_defs =
  completeQuest_def selectUser_def findByIdBasic_def liveQuest_def findUserQuest_def
  updateUserQuest_def applyUserQuestUpdate_def setField_def selectUserAchievement_def
  insertUserAchievement_def selectQuestData_def emit_def Let_def

subsection \<open>First matching row\<close>

lemma find_map_preserve:
  "(\<And>x. P (f x) = P x) \<Longrightarrow> find P (map f xs) = map_option f (find P xs)"
  by (induction xs) auto

lemma find_Some_mem: "find P xs = Some x \<Longrightarrow> x \<in> set xs \<and> P x"
  by (induction xs) (auto split: if_splits)

lemma find_mem_not_None: "x \<in> set xs \<Longrightarrow> P x \<Longrightarrow> find P xs \<noteq> None"
  by (induction xs) auto

subsection \<open>Completing a quest\<close>

lemma completeQuest_success_state:
  assumes u: "selectUser s userId = Some user"
    and q: "findByIdBasic s questId = Some quest"
    and r: "findUserQuest s userId questId = Some uq"
    and n: "uq_status uq \<noteq> UQ_completed"
  shows "\<exists>r s'. completeQuest now s userId questId = (Inr r, s')
           \<and> uq_status r = UQ_completed \<and> uq_completedAt r = Some now
           \<and> findUserQuest s' userId questId
               = Some (uq\<lparr>uq_status := UQ_completed, uq_completedAt := Some now\<rparr>)
           \<and> selectUser s' userId
               = Some (user\<lparr>u_experience := u_experience user + q_experienceReward quest\<rparr>)
           \<and> findByIdBasic s' questId = Some quest"
proof -
  let ?d = "\<lparr>uqu_status = Some UQ_completed, uqu_completedAt = Some (Some now)\<rparr>"
  let ?f = "\<lambda>r. if uq_id r = uq_id uq then applyUserQuestUpdate ?d r else r"
  let ?g = "\<lambda>u. if u_id u = userId
                 then u\<lparr>u_experience := u_experience user + q_experienceReward quest\<rparr>
                 else u"
  from r have mem: "uq \<in> set (userQuests s)"
    by (auto simp: findUserQuest_def dest: find_Some_mem)
  from mem obtain r0 where r0: "find (\<lambda>r. uq_id r = uq_id uq) (userQuests s) = Some r0"
    using find_mem_not_None [of uq "userQuests s" "\<lambda>r. uq_id r = uq_id uq"] by auto
  have fu: "find (\<lambda>r. uq_userId r = userId \<and> uq_questId r = questId)
              (map ?f (userQuests s)) = Some (applyUserQuestUpdate ?d uq)"
    using r by (subst find_map_preserve) (auto simp: applyUserQuestUpdate_def findUserQuest_def)
  from u have uk: "u_id user = userId"
    by (auto simp: selectUser_def dest: find_Some_mem)
  have su: "find (\<lambda>u. u_id u = userId \<and> u_recordStatus u \<noteq> DELETED) (map ?g (users s))
              = Some (?g user)"
    using u by (subst find_map_preserve) (auto simp: selectUser_def)
  show ?thesis
    using u q r n r0 fu su uk
    by (auto simp: completeQuest_def updateUserQuest_def Let_def emit_def
        insertUserAchievement_def selectUserAchievement_def findUserQuest_def
        selectUser_def findByIdBasic_def applyUserQuestUpdate_def setField_def
        split: option.splits)
qed

lemma completeQuest_Inr_pre:
  assumes "completeQuest now s userId questId = (Inr r, s')"
  shows "\<exists>user quest uq. selectUser s userId = Some user
           \<and> findByIdBasic s questId = Some quest
           \<and> findUserQuest s userId questId = Some uq \<and> uq_status uq \<noteq> UQ_completed"
  using assms
  by (auto simp: completeQuest_def Let_def split: option.splits if_splits prod.splits)

lemma completeQuest_conflict:
  assumes "selectUser s userId = Some user" "findByIdBasic s questId = Some quest"
    "findUserQuest s userId questId = Some uq" "uq_status uq = UQ_completed"
  shows "completeQuest now s userId questId = (Inl (Conflict MsgAlreadyCompleted), s)"
  using assms by (simp add: completeQuest_def)

text \<open>
  C1. When the participation row of a non-deleted user in a non-deleted quest is already
  completed, \<open>completeQuest\<close> fails with Conflict and returns the store it was given:
  participation, experience, grants and event log are untouched. In particular the
  store \<open>s\<close> left by a successful completion answers every further completion of the
  same pair with Conflict and stays \<open>s\<close>.
\<close>

theorem completeQuest_idempotent:
  "(selectUser s userId \<noteq> None \<and> findByIdBasic s questId \<noteq> None \<and>
    (\<exists>uq. findUserQuest s userId questId = Some uq \<and> uq_status uq = UQ_completed)
      \<longrightarrow> completeQuest now s userId questId = (Inl (Conflict MsgAlreadyCompleted), s))
   \<and> (completeQuest now0 s0 userId questId = (Inr r, s)
      \<longrightarrow> completeQuest now s userId questId = (Inl (Conflict MsgAlreadyCompleted), s))"
proof (intro conjI impI)
  assume "selectUser s userId \<noteq> None \<and> findByIdBasic s questId \<noteq> None \<and>
    (\<exists>uq. findUserQuest s userId questId = Some uq \<and> uq_status uq = UQ_completed)"
  then show "completeQuest now s userId questId = (Inl (Conflict MsgAlreadyCompleted), s)"
    by (auto intro: completeQuest_conflict)
next
  assume first: "completeQuest now0 s0 userId questId = (Inr r, s)"
  from completeQuest_Inr_pre [OF first] obtain user quest uq where
    pre: "selectUser s0 userId = Some user" "findByIdBasic s0 questId = Some quest"
      "findUserQuest s0 userId questId = Some uq" "uq_status uq \<noteq> UQ_completed"
    by blast
  from completeQuest_success_state [OF pre, of now0] first
  have "findUserQuest s userId questId
          = Some (uq\<lparr>uq_status := UQ_completed, uq_completedAt := Some now0\<rparr>)"
    and "selectUser s userId
          = Some (user\<lparr>u_experience := u_experience user + q_experienceReward quest\<rparr>)"
    and "findByIdBasic s questId = Some quest"
    by auto
  then show "completeQuest now s userId questId = (Inl (Conflict MsgAlreadyCompleted), s)"
    by (auto intro: completeQuest_conflict)
qed

theorem completeQuest_idempotent_witness:
  "(\<exists>r. completeQuest 7 scenarioState 1 1 = (Inr r, snd (completeQuest 7 scenarioState 1 1)))
   \<and> selectUser (snd (completeQuest 7 scenarioState 1 1)) 1 \<noteq> None
   \<and> findByIdBasic (snd (completeQuest 7 scenarioState 1 1)) 1 \<noteq> None
   \<and> (\<exists>uq. findUserQuest (snd (completeQuest 7 scenarioState 1 1)) 1 1 = Some uq
            \<and> uq_status uq = UQ_completed)
   \<and> completeQuest 8 (snd (completeQuest 7 scenarioState 1 1)) 1 1
       = (Inl (Conflict MsgAlreadyCompleted), snd (completeQuest 7 scenarioState 1 1))"
proof -
  have first: "completeQuest 7 scenarioState 1 1
      = (Inr (participation1\<lparr>uq_status := UQ_completed, uq_completedAt := Some 7\<rparr>),
         snd (completeQuest 7 scenarioState 1 1))"
    by (simp add: scenario_defs complete_defs)
  have pre: "selectUser (snd (completeQuest 7 scenarioState 1 1)) 1 \<noteq> None
      \<and> findByIdBasic (snd (completeQuest 7 scenarioState 1 1)) 1 \<noteq> None
      \<and> (\<exists>uq. findUserQuest (snd (completeQuest 7 scenarioState 1 1)) 1 1 = Some uq
               \<and> uq_status uq = UQ_completed)"
    by (simp add: scenario_defs complete_defs)
  show ?thesis
    using first pre
      completeQuest_idempotent [of "snd (completeQuest 7 scenarioState 1 1)" 1 1 8 7
        scenarioState "participation1\<lparr>uq_status := UQ_completed, uq_completedAt := Some 7\<rparr>"]
    by blast
qed

text \<open>
  C10. \<open>completeQuest\<close> reads neither the quest's status nor its steps: whenever the
  user and the quest are found non-deleted and the participation row found for the pair
  is not completed, the call returns a row marked completed and stamped with the time
  of the call, the stored participation is that of before with status and
  \<open>completedAt\<close> replaced, and the user's experience has grown by exactly the quest's
  reward. Nothing is assumed of \<open>q_status quest\<close> or \<open>q_steps quest\<close>.
\<close>

theorem completeQuest_ignores_quest_status:
  assumes "selectUser s userId = Some user"
    and "findByIdBasic s questId = Some quest"
    and "findUserQuest s userId questId = Some uq"
    and "uq_status uq \<noteq> UQ_completed"
  shows "\<exists>r s'. completeQuest now s userId questId = (Inr r, s')
           \<and> uq_status r = UQ_completed \<and> uq_completedAt r = Some now
           \<and> findUserQuest s' userId questId
               = Some (uq\<lparr>uq_status := UQ_completed, uq_completedAt := Some now\<rparr>)
           \<and> selectUser s' userId
               = Some (user\<lparr>u_experience := u_experience user + q_experienceReward quest\<rparr>)"
  using completeQuest_success_state [OF assms, of now] by blast

theorem completeQuest_ignores_quest_status_witness:
  "selectUser archivedState 1 = Some user1
   \<and> findByIdBasic archivedState 1 = Some (quest1\<lparr>q_status := QArchived\<rparr>)
   \<and> q_steps (quest1\<lparr>q_status := QArchived\<rparr>) = Some [step1]
   \<and> st_requirement step1 = Some \<lparr>currentValue = Some 0, targetValue = Some 10\<rparr>
   \<and> findUserQuest archivedState 1 1 = Some participation1
   \<and> uq_status participation1 \<noteq> UQ_completed
   \<and> (\<exists>r s'. completeQuest 7 archivedState 1 1 = (Inr r, s')
         \<and> uq_status r = UQ_completed \<and> uq_completedAt r = Some 7
         \<and> findUserQuest s' 1 1
             = Some (participation1\<lparr>uq_status := UQ_completed, uq_completedAt := Some 7\<rparr>)
         \<and> selectUser s' 1 = Some (user1\<lparr>u_experience := 50\<rparr>))"
proof -
  have h1: "selectUser archivedState 1 = Some user1"
    by (simp add: scenario_defs selectUser_def)
  have h2: "findByIdBasic archivedState 1 = Some (quest1\<lparr>q_status := QArchived\<rparr>)"
    by (simp add: scenario_defs findByIdBasic_def liveQuest_def)
  have h3: "findUserQuest archivedState 1 1 = Some participation1"
    by (simp add: scenario_defs findUserQuest_def)
  have h4: "uq_status participation1 \<noteq> UQ_completed"
    by (simp add: participation1_def)
  have h5: "q_steps (quest1\<lparr>q_status := QArchived\<rparr>) = Some [step1]
      \<and> st_requirement step1 = Some \<lparr>currentValue = Some 0, targetValue = Some 10\<rparr>"
    by (simp add: quest1_def step1_def)
  have h6: "u_experience user1 + q_experienceReward (quest1\<lparr>q_status := QArchived\<rparr>) = 50"
    by (simp add: quest1_def user1_def)
  show ?thesis
    using h1 h2 h3 h4 h5 completeQuest_ignores_quest_status [OF h1 h2 h3 h4, of 7]
    unfolding h6 by blast
qed

text \<open>
  C3. \<open>completeQuest\<close> does not look at whether the quest has a bound achievement. For
  a quest with \<open>achievementId\<close> null the existence check compares with NULL and finds
  nothing in any store, and the insert follows: completing the scenario's quest, which
  has no bound achievement, writes a grant row with no achievement.
\<close>

theorem completeQuest_grants_without_bound_achievement:
  "selectUserAchievement s userId None = None
   \<and> q_achievementId quest1 = None
   \<and> userAchievements scenarioState = []
   \<and> userAchievements (snd (completeQuest 7 scenarioState 1 1))
       = [\<lparr>ua_id = 1, ua_userId = 1, ua_achievementId = None, ua_unlockedAt = 7\<rparr>]"
proof -
  have "sql_eq a None = False" for a by (cases a) simp_all
  then have "selectUserAchievement s userId None = None"
    by (simp add: selectUserAchievement_def find_None_iff)
  then show ?thesis by (simp add: scenario_defs complete_defs)
qed

subsection \<open>Requirement progress\<close>

lemma find_conj_Some: "find P xs = Some x \<Longrightarrow> Q x \<Longrightarrow> find (\<lambda>y. P y \<and> Q y) xs = Some x"
  by (induction xs) (auto split: if_splits)

lemma liveQuest_applyUpdateData [simp]:
  "liveQuest qid (applyUpdateData now d q) = liveQuest qid q"
  by (simp add: liveQuest_def applyUpdateData_def)

lemma q_ownerId_applyUpdateData [simp]:
  "q_ownerId (applyUpdateData now d q) = q_ownerId q"
  by (simp add: applyUpdateData_def)

lemma QuestRepository_update_found:
  assumes "findByIdBasic s qid = Some q"
  shows "\<exists>s1. QuestRepository_update now s qid d = (Some (applyUpdateData now d q), s1)
           \<and> findByIdBasic s1 qid = Some (applyUpdateData now d q)
           \<and> s1 = s\<lparr>quests := map (\<lambda>q. if liveQuest qid q then applyUpdateData now d q else q)
                                 (quests s)\<rparr>"
proof -
  have "find (liveQuest qid)
          (map (\<lambda>q. if liveQuest qid q then applyUpdateData now d q else q) (quests s))
        = map_option (\<lambda>q. if liveQuest qid q then applyUpdateData now d q else q)
            (find (liveQuest qid) (quests s))"
    by (rule find_map_preserve) simp
  with assms show ?thesis
    by (auto simp: QuestRepository_update_def findByIdBasic_def dest: find_Some_mem)
qed

lemma findById_live_owner:
  assumes "findByIdBasic s qid = Some q" "selectUser s (q_ownerId q) = Some owner"
  shows "\<exists>r. findById s qid = Some r \<and> qr_quest r = q"
proof -
  have "find (\<lambda>q. liveQuest qid q \<and> selectUser s (q_ownerId q) \<noteq> None) (quests s) = Some q"
    using assms by (auto simp: findByIdBasic_def intro: find_conj_Some)
  with assms show ?thesis by (simp add: findById_def)
qed

lemma updateRequirement_accepted:
  fixes now :: nat and s :: state
  assumes q: "findByIdBasic s questId = Some quest"
    and act: "q_status quest = QActive"
    and st: "q_steps quest = Some steps"
    and i: "0 \<le> i" "i < int (length steps)"
    and req: "st_requirement (steps ! nat i) = Some req"
    and tgt: "targetValue req = Some target"
    and v: "0 \<le> v" "v \<le> target"
  defines "steps' \<equiv> steps[nat i := (steps ! nat i)\<lparr>st_requirement :=
                        Some (req\<lparr>currentValue := Some v\<rparr>)\<rparr>]"
  defines "d \<equiv> emptyUpdateData\<lparr>ud_steps := Some (Some steps')\<rparr>"
  defines "s2 \<equiv> emit (RequirementUpdated questId (Some steps'))
                  (s\<lparr>quests := map (\<lambda>q. if liveQuest questId q then applyUpdateData now d q else q)
                                 (quests s)\<rparr>)"
  shows "updateRequirementCurrentValue now s questId i v = (findOne s2 questId, s2)"
    and "findByIdBasic s2 questId = Some (quest\<lparr>q_steps := Some steps', q_updatedAt := now\<rparr>)"
proof -
  from QuestRepository_update_found [OF q, of now d]
  have upd: "QuestRepository_update now s questId d
      = (Some (applyUpdateData now d quest),
         s\<lparr>quests := map (\<lambda>q. if liveQuest questId q then applyUpdateData now d q else q)
                           (quests s)\<rparr>)"
    and fb: "findByIdBasic
        (s\<lparr>quests := map (\<lambda>q. if liveQuest questId q then applyUpdateData now d q else q)
                          (quests s)\<rparr>) questId = Some (applyUpdateData now d quest)"
    by auto
  have ap: "applyUpdateData now d quest = quest\<lparr>q_steps := Some steps', q_updatedAt := now\<rparr>"
    by (simp add: applyUpdateData_def d_def emptyUpdateData_def setField_def)
  show "updateRequirementCurrentValue now s questId i v = (findOne s2 questId, s2)"
    using q act st i req tgt v upd
    by (simp add: updateRequirementCurrentValue_def Let_def steps'_def [symmetric]
        d_def [symmetric] s2_def ap)
  show "findByIdBasic s2 questId = Some (quest\<lparr>q_steps := Some steps', q_updatedAt := now\<rparr>)"
    using fb by (simp add: s2_def emit_def findByIdBasic_def ap)
qed



lemmas requirement_defs =
  updateRequirementCurrentValue_def findByIdBasic_def liveQuest_def
  QuestRepository_update_def applyUpdateData_def emptyUpdateData_def setField_def
  emit_def findOne_def findById_def selectUser_def selectAchievement_def selectCity_def
  selectOrganizationType_def findCategoriesByQuestId_def userInfo_def Let_def

text \<open>
  C6. On a quest found with status archived or completed,
  \<open>updateRequirementCurrentValue\<close> returns BadRequest with the message that carries
  that status, and the store (the quest's steps with it) is the one it was given.
  Conversely the store changes only if the quest found is active.
\<close>

theorem updateRequirement_only_active:
  "(findByIdBasic s questId = Some quest \<and>
      (q_status quest = QArchived \<or> q_status quest = QCompleted)
     \<longrightarrow> updateRequirementCurrentValue now s questId i v
           = (Inl (BadRequest (MsgQuestStatusNotEditable (q_status quest))), s))
   \<and> (snd (updateRequirementCurrentValue now s questId i v) \<noteq> s
     \<longrightarrow> (\<exists>quest. findByIdBasic s questId = Some quest \<and> q_status quest = QActive))"
  by (auto simp: updateRequirementCurrentValue_def Let_def
      split: option.splits if_splits prod.splits)

theorem updateRequirement_only_active_witness:
  "findByIdBasic archivedState 1 = Some (quest1\<lparr>q_status := QArchived\<rparr>)
   \<and> q_status (quest1\<lparr>q_status := QArchived\<rparr>) = QArchived
   \<and> updateRequirementCurrentValue 7 archivedState 1 0 5
       = (Inl (BadRequest (MsgQuestStatusNotEditable QArchived)), archivedState)
   \<and> snd (updateRequirementCurrentValue 7 scenarioState 1 0 5) \<noteq> scenarioState
   \<and> findByIdBasic scenarioState 1 = Some quest1 \<and> q_status quest1 = QActive"
proof -
  have h1: "findByIdBasic archivedState 1 = Some (quest1\<lparr>q_status := QArchived\<rparr>)"
    by (simp add: scenario_defs findByIdBasic_def liveQuest_def)
  have h2: "q_status (quest1\<lparr>q_status := QArchived\<rparr>) = QArchived" by simp
  have h3: "snd (updateRequirementCurrentValue 7 scenarioState 1 0 5) \<noteq> scenarioState"
    by (simp add: scenario_defs requirement_defs)
  have h4: "findByIdBasic scenarioState 1 = Some quest1 \<and> q_status quest1 = QActive"
    by (simp add: scenario_defs findByIdBasic_def liveQuest_def)
  show ?thesis
    using h1 h2 h3 h4
      updateRequirement_only_active [of archivedState 1 "quest1\<lparr>q_status := QArchived\<rparr>" 7 0 5]
    by simp
qed

text \<open>
  C2, as stated, fails where the quest's owner is soft-deleted: the value 5 lies within
  0 and the target 10, the write is made, and the closing re-read through \<open>findOne\<close>
  joins the owner, finds no row and raises NotFound.
\<close>

theorem updateRequirement_in_range_not_found_counterexample:
  "findByIdBasic orphanState 1 = Some quest1 \<and> q_status quest1 = QActive
   \<and> q_steps quest1 = Some [step1]
   \<and> st_requirement ([step1] ! 0) = Some \<lparr>currentValue = Some 0, targetValue = Some 10\<rparr>
   \<and> (0::int) \<le> 5 \<and> (5::int) \<le> 10
   \<and> fst (updateRequirementCurrentValue 7 orphanState 1 0 5)
       = Inl (NotFound (MsgQuestNotFound 1))"
  by (simp add: scenario_defs requirement_defs)

text \<open>
  C2, amended. For an active quest whose addressed step carries a requirement with a
  target: a new value below 0 or above the target is rejected with BadRequest and the
  store is unchanged, whatever the prior value; a value from 0 to the target, the target
  included, is never rejected with BadRequest and is written to the addressed step; and
  when the quest's owner is a non-deleted user the call returns successfully exactly for
  the values from 0 to the target.
\<close>

theorem updateRequirement_bounds:
  fixes now :: nat and s :: state
  assumes q: "findByIdBasic s questId = Some quest"
    and act: "q_status quest = QActive"
    and st: "q_steps quest = Some steps"
    and i: "0 \<le> i" "i < int (length steps)"
    and req: "st_requirement (steps ! nat i) = Some req"
    and tgt: "targetValue req = Some target"
  shows "(v < 0 \<or> target < v
           \<longrightarrow> (\<exists>m. updateRequirementCurrentValue now s questId i v = (Inl (BadRequest m), s)))
       \<and> (0 \<le> v \<and> v \<le> target
           \<longrightarrow> (\<forall>m. fst (updateRequirementCurrentValue now s questId i v) \<noteq> Inl (BadRequest m))
             \<and> findByIdBasic (snd (updateRequirementCurrentValue now s questId i v)) questId
                 = Some (quest\<lparr>q_steps := Some (steps[nat i := (steps ! nat i)\<lparr>st_requirement :=
                                      Some (req\<lparr>currentValue := Some v\<rparr>)\<rparr>]),
                          q_updatedAt := now\<rparr>))
       \<and> (selectUser s (q_ownerId quest) \<noteq> None
           \<longrightarrow> ((\<exists>r. fst (updateRequirementCurrentValue now s questId i v) = Inr r)
                  \<longleftrightarrow> 0 \<le> v \<and> v \<le> target))"
proof -
  have rej: "\<exists>m. updateRequirementCurrentValue now s questId i v = (Inl (BadRequest m), s)"
    if "v < 0 \<or> target < v"
    using that q act st i req tgt by (auto simp: updateRequirementCurrentValue_def Let_def)
  {
    assume v: "0 \<le> v \<and> v \<le> target"
    define steps' where "steps' = steps[nat i := (steps ! nat i)\<lparr>st_requirement :=
                        Some (req\<lparr>currentValue := Some v\<rparr>)\<rparr>]"
    define s2 where "s2 = emit (RequirementUpdated questId (Some steps'))
        (s\<lparr>quests := map (\<lambda>q. if liveQuest questId q
            then applyUpdateData now (emptyUpdateData\<lparr>ud_steps := Some (Some steps')\<rparr>) q else q)
          (quests s)\<rparr>)"
    from v have v1: "0 \<le> v" and v2: "v \<le> target" by auto
    note acc = updateRequirement_accepted [OF q act st i req tgt v1 v2, of now,
        folded steps'_def, folded s2_def]
    have res: "updateRequirementCurrentValue now s questId i v = (findOne s2 questId, s2)"
      by (rule acc(1))
    have fb: "findByIdBasic s2 questId = Some (quest\<lparr>q_steps := Some steps', q_updatedAt := now\<rparr>)"
      by (rule acc(2))
    have nb: "\<forall>m. fst (updateRequirementCurrentValue now s questId i v) \<noteq> Inl (BadRequest m)"
      by (simp add: res findOne_def split: option.splits)
    have ok: "\<exists>r. fst (updateRequirementCurrentValue now s questId i v) = Inr r"
      if "selectUser s (q_ownerId quest) \<noteq> None"
    proof -
      from that obtain owner where "selectUser s (q_ownerId quest) = Some owner" by auto
      then have "selectUser s2 (q_ownerId (quest\<lparr>q_steps := Some steps', q_updatedAt := now\<rparr>))
          = Some owner"
        by (simp add: selectUser_def s2_def emit_def)
      from findById_live_owner [OF fb this] show ?thesis
        by (auto simp: res findOne_def)
    qed
    note nb fb ok res
  }
  note acc = this
  show ?thesis
  proof (intro conjI impI)
    assume "v < 0 \<or> target < v"
    then show "\<exists>m. updateRequirementCurrentValue now s questId i v = (Inl (BadRequest m), s)"
      by (rule rej)
  next
    assume v: "0 \<le> v \<and> v \<le> target"
    from acc(1) [OF v]
    show "\<forall>m. fst (updateRequirementCurrentValue now s questId i v) \<noteq> Inl (BadRequest m)" .
    from acc(2) [OF v] acc(4) [OF v]
    show "findByIdBasic (snd (updateRequirementCurrentValue now s questId i v)) questId
                 = Some (quest\<lparr>q_steps := Some (steps[nat i := (steps ! nat i)\<lparr>st_requirement :=
                                      Some (req\<lparr>currentValue := Some v\<rparr>)\<rparr>]),
                          q_updatedAt := now\<rparr>)"
      by simp
  next
    assume o: "selectUser s (q_ownerId quest) \<noteq> None"
    show "(\<exists>r. fst (updateRequirementCurrentValue now s questId i v) = Inr r)
                  \<longleftrightarrow> 0 \<le> v \<and> v \<le> target"
    proof
      assume "\<exists>r. fst (updateRequirementCurrentValue now s questId i v) = Inr r"
      then show "0 \<le> v \<and> v \<le> target"
        using rej by fastforce
    next
      assume "0 \<le> v \<and> v \<le> target"
      from acc(3) [OF this o]
      show "\<exists>r. fst (updateRequirementCurrentValue now s questId i v) = Inr r" .
    qed
  qed
qed

theorem updateRequirement_bounds_witness:
  "findByIdBasic scenarioState 1 = Some quest1 \<and> q_status quest1 = QActive
   \<and> q_steps quest1 = Some [step1] \<and> (0::int) \<le> 0 \<and> (0::int) < int (length [step1])
   \<and> st_requirement ([step1] ! nat 0) = Some \<lparr>currentValue = Some 0, targetValue = Some 10\<rparr>
   \<and> selectUser scenarioState (q_ownerId quest1) \<noteq> None
   \<and> (\<exists>m. updateRequirementCurrentValue 7 scenarioState 1 0 11
            = (Inl (BadRequest m), scenarioState))
   \<and> (\<exists>r. fst (updateRequirementCurrentValue 7 scenarioState 1 0 10) = Inr r)
   \<and> findByIdBasic (snd (updateRequirementCurrentValue 7 scenarioState 1 0 10)) 1
       = Some (quest1\<lparr>q_steps := Some [step1\<lparr>st_requirement :=
                 Some \<lparr>currentValue = Some 10, targetValue = Some 10\<rparr>\<rparr>],
               q_updatedAt := 7\<rparr>)"
proof -
  have h1: "findByIdBasic scenarioState 1 = Some quest1"
    by (simp add: scenario_defs findByIdBasic_def liveQuest_def)
  have h2: "q_status quest1 = QActive" by (simp add: quest1_def)
  have h3: "q_steps quest1 = Some [step1]" by (simp add: quest1_def)
  have h4: "(0::int) \<le> 0" by simp
  have h5: "(0::int) < int (length [step1])" by simp
  have h6: "st_requirement ([step1] ! nat 0)
      = Some \<lparr>currentValue = Some 0, targetValue = Some 10\<rparr>"
    by (simp add: step1_def)
  have h7: "targetValue \<lparr>currentValue = Some 0, targetValue = Some 10\<rparr> = Some 10" by simp
  have h8: "selectUser scenarioState (q_ownerId quest1) \<noteq> None"
    by (simp add: scenario_defs selectUser_def)
  show ?thesis
    using h1 h2 h3 h4 h5 h6 h8
      updateRequirement_bounds [OF h1 h2 h3 h4 h5 h6 h7, of 11 7]
      updateRequirement_bounds [OF h1 h2 h3 h4 h5 h6 h7, of 10 7]
    by simp
qed

lemma updateRequirement_Inr_pre:
  assumes "updateRequirementCurrentValue now s questId i v = (Inr r, s')"
  shows "\<exists>quest steps req target. findByIdBasic s questId = Some quest
           \<and> q_status quest = QActive \<and> q_steps quest = Some steps
           \<and> 0 \<le> i \<and> i < int (length steps)
           \<and> st_requirement (steps ! nat i) = Some req \<and> targetValue req = Some target
           \<and> 0 \<le> v \<and> v \<le> target"
  using assms
  by (auto simp: updateRequirementCurrentValue_def Let_def
      split: option.splits if_splits prod.splits)

lemma applyUpdateData_steps_only:
  "applyUpdateData now (emptyUpdateData\<lparr>ud_steps := Some (Some steps')\<rparr>) q
     = q\<lparr>q_steps := Some steps', q_updatedAt := now\<rparr>"
  by (simp add: applyUpdateData_def emptyUpdateData_def setField_def)

text \<open>
  C7. When \<open>updateRequirementCurrentValue\<close> returns successfully, the store differs
  from the one given in two places only: every non-deleted quest row with that id has
  its steps replaced by the old steps with the addressed step's requirement
  \<open>currentValue\<close> set to the new value (and its \<open>updatedAt\<close> stamped), and one
  RequirementUpdated event carrying the full new steps is appended to the event log.
  In the new steps every other step is the old one, and the addressed step keeps its
  title, description, status, progress, deadline and requirement \<open>targetValue\<close>.
\<close>

theorem updateRequirement_frame:
  fixes now :: nat and s :: state
  assumes ok: "updateRequirementCurrentValue now s questId i v = (Inr r, s')"
  shows "\<exists>quest steps req.
           findByIdBasic s questId = Some quest \<and> q_steps quest = Some steps
           \<and> 0 \<le> i \<and> nat i < length steps \<and> st_requirement (steps ! nat i) = Some req
           \<and> (let step' = (steps ! nat i)\<lparr>st_requirement :=
                               Some (req\<lparr>currentValue := Some v\<rparr>)\<rparr>;
                   steps' = steps[nat i := step']
               in s' = s\<lparr>quests := map (\<lambda>q. if liveQuest questId q
                                            then q\<lparr>q_steps := Some steps', q_updatedAt := now\<rparr>
                                            else q) (quests s),
                         events := events s @ [RequirementUpdated questId (Some steps')]\<rparr>
                  \<and> findByIdBasic s' questId
                      = Some (quest\<lparr>q_steps := Some steps', q_updatedAt := now\<rparr>)
                  \<and> q_steps (qr_quest (fst r)) = Some steps' 
                  \<and> length steps' = length steps
                  \<and> (\<forall>j < length steps. j \<noteq> nat i \<longrightarrow> steps' ! j = steps ! j)
                  \<and> st_title (steps' ! nat i) = st_title (steps ! nat i)
                  \<and> st_description (steps' ! nat i) = st_description (steps ! nat i)
                  \<and> st_status (steps' ! nat i) = st_status (steps ! nat i)
                  \<and> st_progress (steps' ! nat i) = st_progress (steps ! nat i)
                  \<and> st_deadline (steps' ! nat i) = st_deadline (steps ! nat i)
                  \<and> st_requirement (steps' ! nat i)
                      = Some \<lparr>currentValue = Some v, targetValue = targetValue req\<rparr>)"
proof -
  from updateRequirement_Inr_pre [OF ok] obtain quest steps req target where
    q: "findByIdBasic s questId = Some quest" and act: "q_status quest = QActive"
    and st: "q_steps quest = Some steps" and i: "0 \<le> i" "i < int (length steps)"
    and req: "st_requirement (steps ! nat i) = Some req"
    and tgt: "targetValue req = Some target" and v: "0 \<le> v" "v \<le> target"
    by blast
  define steps' where "steps' = steps[nat i := (steps ! nat i)\<lparr>st_requirement :=
                        Some (req\<lparr>currentValue := Some v\<rparr>)\<rparr>]"
  define s2 where "s2 = emit (RequirementUpdated questId (Some steps'))
      (s\<lparr>quests := map (\<lambda>q. if liveQuest questId q
          then applyUpdateData now (emptyUpdateData\<lparr>ud_steps := Some (Some steps')\<rparr>) q else q)
        (quests s)\<rparr>)"
  note acc = updateRequirement_accepted [OF q act st i req tgt v, of now,
      folded steps'_def, folded s2_def]
  from acc(1) ok have s': "s' = s2" and r: "findOne s2 questId = Inr r" by auto
  have s2eq: "s2 = s\<lparr>quests := map (\<lambda>q. if liveQuest questId q
                                  then q\<lparr>q_steps := Some steps', q_updatedAt := now\<rparr>
                                  else q) (quests s),
                     events := events s @ [RequirementUpdated questId (Some steps')]\<rparr>"
    by (simp add: s2_def emit_def applyUpdateData_steps_only)
  have fb: "findByIdBasic s2 questId = Some (quest\<lparr>q_steps := Some steps', q_updatedAt := now\<rparr>)"
    by (rule acc(2))
  from r obtain w where w: "findById s2 questId = Some w" and rw: "fst r = w"
    by (auto simp: findOne_def split: option.splits)
  from w have lw: "liveQuest questId (qr_quest w)" and mw: "qr_quest w \<in> set (quests s2)"
    by (auto simp: findById_def split: option.splits dest: find_Some_mem)
  have ni: "nat i < length steps" using i by auto
  have qs2: "quests s2 = map (\<lambda>q. if liveQuest questId q
                                  then q\<lparr>q_steps := Some steps', q_updatedAt := now\<rparr>
                                  else q) (quests s)"
    by (subst s2eq) simp
  from mw have "qr_quest w \<in> (\<lambda>q. if liveQuest questId q
      then q\<lparr>q_steps := Some steps', q_updatedAt := now\<rparr> else q) ` set (quests s)"
    unfolding qs2 by simp
  then obtain q0 where q0: "qr_quest w = (if liveQuest questId q0
      then q0\<lparr>q_steps := Some steps', q_updatedAt := now\<rparr> else q0)"
    by (rule imageE)
  have rq: "q_steps (qr_quest (fst r)) = Some steps'"
  proof (cases "liveQuest questId q0")
    case True
    with q0 show ?thesis by (simp add: rw)
  next
    case False
    with q0 lw show ?thesis by simp
  qed
  have len: "length steps' = length steps" by (simp add: steps'_def)
  have others: "\<forall>j < length steps. j \<noteq> nat i \<longrightarrow> steps' ! j = steps ! j"
    by (simp add: steps'_def)
  have at: "steps' ! nat i
      = (steps ! nat i)\<lparr>st_requirement := Some (req\<lparr>currentValue := Some v\<rparr>)\<rparr>"
    using ni by (simp add: steps'_def)
  have reqeq: "req\<lparr>currentValue := Some v\<rparr>
      = \<lparr>currentValue = Some v, targetValue = targetValue req\<rparr>"
    by simp
  have frame: "s' = s\<lparr>quests := map (\<lambda>q. if liveQuest questId q
                                  then q\<lparr>q_steps := Some steps', q_updatedAt := now\<rparr>
                                  else q) (quests s),
                     events := events s @ [RequirementUpdated questId (Some steps')]\<rparr>
      \<and> findByIdBasic s' questId = Some (quest\<lparr>q_steps := Some steps', q_updatedAt := now\<rparr>)
      \<and> q_steps (qr_quest (fst r)) = Some steps'
      \<and> length steps' = length steps
      \<and> (\<forall>j < length steps. j \<noteq> nat i \<longrightarrow> steps' ! j = steps ! j)
      \<and> st_title (steps' ! nat i) = st_title (steps ! nat i)
      \<and> st_description (steps' ! nat i) = st_description (steps ! nat i)
      \<and> st_status (steps' ! nat i) = st_status (steps ! nat i)
      \<and> st_progress (steps' ! nat i) = st_progress (steps ! nat i)
      \<and> st_deadline (steps' ! nat i) = st_deadline (steps ! nat i)
      \<and> st_requirement (steps' ! nat i)
          = Some \<lparr>currentValue = Some v, targetValue = targetValue req\<rparr>"
    unfolding at using s' s2eq fb rq len others reqeq by simp
  show ?thesis
    apply (rule exI [of _ quest], rule exI [of _ steps], rule exI [of _ req])
    unfolding Let_def steps'_def [symmetric]
    using q st i(1) ni req frame by blast
qed

theorem updateRequirement_frame_witness:
  "(\<exists>r. updateRequirementCurrentValue 7 scenarioState 1 0 10
          = (Inr r, snd (updateRequirementCurrentValue 7 scenarioState 1 0 10)))
   \<and> events (snd (updateRequirementCurrentValue 7 scenarioState 1 0 10))
       = [RequirementUpdated 1 (Some [step1\<lparr>st_requirement :=
            Some \<lparr>currentValue = Some 10, targetValue = Some 10\<rparr>\<rparr>])]
   \<and> quests (snd (updateRequirementCurrentValue 7 scenarioState 1 0 10))
       = [quest1\<lparr>q_steps := Some [step1\<lparr>st_requirement :=
            Some \<lparr>currentValue = Some 10, targetValue = Some 10\<rparr>\<rparr>], q_updatedAt := 7\<rparr>]"
proof -
  have ex: "\<exists>r. updateRequirementCurrentValue 7 scenarioState 1 0 10
      = (Inr r, snd (updateRequirementCurrentValue 7 scenarioState 1 0 10))"
    by (simp add: scenario_defs requirement_defs)
  then obtain r where ok: "updateRequirementCurrentValue 7 scenarioState 1 0 10
      = (Inr r, snd (updateRequirementCurrentValue 7 scenarioState 1 0 10))" ..
  have ev: "events (snd (updateRequirementCurrentValue 7 scenarioState 1 0 10))
       = [RequirementUpdated 1 (Some [step1\<lparr>st_requirement :=
            Some \<lparr>currentValue = Some 10, targetValue = Some 10\<rparr>\<rparr>])]
     \<and> quests (snd (updateRequirementCurrentValue 7 scenarioState 1 0 10))
       = [quest1\<lparr>q_steps := Some [step1\<lparr>st_requirement :=
            Some \<lparr>currentValue = Some 10, targetValue = Some 10\<rparr>\<rparr>], q_updatedAt := 7\<rparr>]"
    by (simp add: scenario_defs requirement_defs)
  from updateRequirement_frame [OF ok] ex ev show ?thesis by blast
qed

subsection \<open>Partial update\<close>

lemma applyUpdateData_empty:
  "applyUpdateData now (buildUpdateData emptyPatch) q = q\<lparr>q_updatedAt := now\<rparr>"
  by (simp add: applyUpdateData_def buildUpdateData_def emptyPatch_def setField_def)

lemma applyUpdateData_gallery:
  "applyUpdateData now (buildUpdateData (emptyPatch\<lparr>d_gallery := Some (Some [])\<rparr>)) q
     = q\<lparr>q_gallery := Some [], q_updatedAt := now\<rparr>"
  by (simp add: applyUpdateData_def buildUpdateData_def emptyPatch_def setField_def)

lemma updateValidation_empty: "updateValidation s emptyPatch = None"
  by (simp add: updateValidation_def checkAchievementId_def checkCityId_def
      checkOrganizationTypeId_def checkGallery_def emptyPatch_def)

lemma updateValidation_gallery:
  "updateValidation s (emptyPatch\<lparr>d_gallery := Some (Some [])\<rparr>) = None"
  by (simp add: updateValidation_def checkAchievementId_def checkCityId_def
      checkOrganizationTypeId_def checkGallery_def emptyPatch_def)

lemma update_no_categories:
  fixes now :: nat and s :: state
  assumes q: "findByIdBasic s qid = Some q"
    and val: "updateValidation s dto = None"
    and cat: "d_categoryIds dto = None"
    and st: "d_steps dto = None"
  defines "s1 \<equiv> s\<lparr>quests := map (\<lambda>q. if liveQuest qid q
                                       then applyUpdateData now (buildUpdateData dto) q else q)
                                 (quests s)\<rparr>"
  shows "update now s qid dto = (findOne s1 qid, s1)"
    and "findByIdBasic s1 qid = Some (applyUpdateData now (buildUpdateData dto) q)"
proof -
  from QuestRepository_update_found [OF q, of now "buildUpdateData dto"]
  have upd: "QuestRepository_update now s qid (buildUpdateData dto)
      = (Some (applyUpdateData now (buildUpdateData dto) q), s1)"
    and fb: "findByIdBasic s1 qid = Some (applyUpdateData now (buildUpdateData dto) q)"
    by (auto simp: s1_def)
  show "update now s qid dto = (findOne s1 qid, s1)"
    using q val cat st upd by (simp add: update_def requirementsChanged_def Let_def)
  show "findByIdBasic s1 qid = Some (applyUpdateData now (buildUpdateData dto) q)"
    by (rule fb)
qed

lemma findOne_not_BadRequest: "findOne s qid \<noteq> Inl (BadRequest m)"
  by (simp add: findOne_def split: option.splits)

lemma findOne_live_owner:
  assumes "findByIdBasic s qid = Some q" "selectUser s (q_ownerId q) \<noteq> None"
  shows "\<exists>r. findOne s qid = Inr r"
  using findById_live_owner [of s qid q] assms by (auto simp: findOne_def)

lemma update_quests:
  fixes now :: nat and s :: state
  assumes q: "findByIdBasic s qid = Some q"
  shows "quests (snd (update now s qid dto))
     = (if updateValidation s dto = None
        then map (\<lambda>q. if liveQuest qid q
                       then applyUpdateData now (buildUpdateData dto) q else q) (quests s)
        else quests s)"
proof (cases "updateValidation s dto")
  case (Some e)
  with q show ?thesis by (simp add: update_def)
next
  case None
  from QuestRepository_update_found [OF q, of now "buildUpdateData dto"]
  obtain s1 where upd: "QuestRepository_update now s qid (buildUpdateData dto)
      = (Some (applyUpdateData now (buildUpdateData dto) q), s1)"
    and s1: "s1 = s\<lparr>quests := map (\<lambda>q. if liveQuest qid q
                       then applyUpdateData now (buildUpdateData dto) q else q) (quests s)\<rparr>"
    by blast
  show ?thesis
    using q None upd
    by (simp add: update_def Let_def emit_def deleteQuestCategories_def
        createQuestCategories_def s1 split: option.splits)
qed

lemma update_stored:
  fixes now :: nat and s :: state
  assumes q: "findByIdBasic s qid = Some q"
  shows "findByIdBasic (snd (update now s qid dto)) qid
     = Some (if updateValidation s dto = None
             then applyUpdateData now (buildUpdateData dto) q else q)"
proof -
  have "find (liveQuest qid)
          (map (\<lambda>q. if liveQuest qid q
                     then applyUpdateData now (buildUpdateData dto) q else q) (quests s))
        = map_option (\<lambda>q. if liveQuest qid q
                     then applyUpdateData now (buildUpdateData dto) q else q)
            (find (liveQuest qid) (quests s))"
    by (rule find_map_preserve) simp
  moreover from q have "find (liveQuest qid) (quests s) = Some q" "liveQuest qid q"
    by (auto simp: findByIdBasic_def dest: find_Some_mem)
  ultimately show ?thesis
    by (simp add: findByIdBasic_def [of "snd (update now s qid dto)"] update_quests [OF q])
qed

text \<open>
  C9. For an existing quest, \<open>update\<close> with the empty patch leaves the store as it was
  except for \<open>updatedAt\<close> of the quest's row; \<open>update\<close> with \<open>{gallery: []}\<close> passes
  validation, is never answered with BadRequest, and changes only the row's gallery (to
  the empty list) and \<open>updatedAt\<close>; both calls return successfully when the quest's owner
  is a non-deleted user. For every patch, each field the patch leaves undefined has in
  the stored row the value it had before, and id, owner, record status and creation time
  are never written.
\<close>

theorem update_partial:
  fixes now :: nat and s :: state
  assumes q: "findByIdBasic s qid = Some q"
  shows "snd (update now s qid emptyPatch)
           = s\<lparr>quests := map (\<lambda>q. if liveQuest qid q then q\<lparr>q_updatedAt := now\<rparr> else q)
                            (quests s)\<rparr>
       \<and> snd (update now s qid (emptyPatch\<lparr>d_gallery := Some (Some [])\<rparr>))
           = s\<lparr>quests := map (\<lambda>q. if liveQuest qid q
                                   then q\<lparr>q_gallery := Some [], q_updatedAt := now\<rparr> else q)
                            (quests s)\<rparr>
       \<and> updateValidation s (emptyPatch\<lparr>d_gallery := Some (Some [])\<rparr>) = None
       \<and> (\<forall>m. fst (update now s qid (emptyPatch\<lparr>d_gallery := Some (Some [])\<rparr>))
                 \<noteq> Inl (BadRequest m))
       \<and> (selectUser s (q_ownerId q) \<noteq> None
            \<longrightarrow> (\<exists>r. fst (update now s qid emptyPatch) = Inr r)
              \<and> (\<exists>r. fst (update now s qid (emptyPatch\<lparr>d_gallery := Some (Some [])\<rparr>)) = Inr r))
       \<and> (\<exists>q'. findByIdBasic (snd (update now s qid dto)) qid = Some q'
              \<and> (d_title dto = None \<longrightarrow> q_title q' = q_title q)
              \<and> (d_description dto = None \<longrightarrow> q_description q' = q_description q)
              \<and> (d_status dto = None \<longrightarrow> q_status q' = q_status q)
              \<and> (d_experienceReward dto = None
                    \<longrightarrow> q_experienceReward q' = q_experienceReward q)
              \<and> (d_achievementId dto = None \<longrightarrow> q_achievementId q' = q_achievementId q)
              \<and> (d_cityId dto = None \<longrightarrow> q_cityId q' = q_cityId q)
              \<and> (d_organizationTypeId dto = None
                    \<longrightarrow> q_organizationTypeId q' = q_organizationTypeId q)
              \<and> (d_latitude dto = None \<longrightarrow> q_latitude q' = q_latitude q)
              \<and> (d_longitude dto = None \<longrightarrow> q_longitude q' = q_longitude q)
              \<and> (d_address dto = None \<longrightarrow> q_address q' = q_address q)
              \<and> (d_contacts dto = None \<longrightarrow> q_contacts q' = q_contacts q)
              \<and> (d_coverImage dto = None \<longrightarrow> q_coverImage q' = q_coverImage q)
              \<and> (d_gallery dto = None \<longrightarrow> q_gallery q' = q_gallery q)
              \<and> (d_steps dto = None \<longrightarrow> q_steps q' = q_steps q)
              \<and> q_id q' = q_id q \<and> q_ownerId q' = q_ownerId q
              \<and> q_recordStatus q' = q_recordStatus q \<and> q_createdAt q' = q_createdAt q)"
proof -
  let ?g = "emptyPatch\<lparr>d_gallery := Some (Some [])\<rparr>"
  have c: "d_categoryIds emptyPatch = None" "d_steps emptyPatch = None"
    "d_categoryIds ?g = None" "d_steps ?g = None"
    by (simp_all add: emptyPatch_def)
  note e = update_no_categories [OF q updateValidation_empty c(1) c(2), of now]
  note g = update_no_categories [OF q updateValidation_gallery c(3) c(4), of now]
  have own: "\<And>d. selectUser (s\<lparr>quests := d\<rparr>) (q_ownerId q) = selectUser s (q_ownerId q)"
    by (simp add: selectUser_def)
  have p1: "snd (update now s qid emptyPatch)
           = s\<lparr>quests := map (\<lambda>q. if liveQuest qid q then q\<lparr>q_updatedAt := now\<rparr> else q)
                            (quests s)\<rparr>"
    by (simp add: e(1) applyUpdateData_empty)
  have p2: "snd (update now s qid ?g)
           = s\<lparr>quests := map (\<lambda>q. if liveQuest qid q
                                   then q\<lparr>q_gallery := Some [], q_updatedAt := now\<rparr> else q)
                            (quests s)\<rparr>"
    by (simp add: g(1) applyUpdateData_gallery)
  have p4: "\<forall>m. fst (update now s qid ?g) \<noteq> Inl (BadRequest m)"
    by (simp add: g(1) findOne_not_BadRequest)
  have p5: "(\<exists>r. fst (update now s qid emptyPatch) = Inr r)
          \<and> (\<exists>r. fst (update now s qid ?g) = Inr r)"
    if o: "selectUser s (q_ownerId q) \<noteq> None"
  proof -
    have "\<exists>r. findOne (s\<lparr>quests := map (\<lambda>q. if liveQuest qid q
          then applyUpdateData now (buildUpdateData emptyPatch) q else q) (quests s)\<rparr>) qid = Inr r"
      by (rule findOne_live_owner [OF e(2)]) (simp add: own o)
    moreover have "\<exists>r. findOne (s\<lparr>quests := map (\<lambda>q. if liveQuest qid q
          then applyUpdateData now (buildUpdateData ?g) q else q) (quests s)\<rparr>) qid = Inr r"
      by (rule findOne_live_owner [OF g(2)]) (simp add: own o)
    ultimately show ?thesis by (simp add: e(1) g(1))
  qed
  have p6: "\<exists>q'. findByIdBasic (snd (update now s qid dto)) qid = Some q'
              \<and> (d_title dto = None \<longrightarrow> q_title q' = q_title q)
              \<and> (d_description dto = None \<longrightarrow> q_description q' = q_description q)
              \<and> (d_status dto = None \<longrightarrow> q_status q' = q_status q)
              \<and> (d_experienceReward dto = None
                    \<longrightarrow> q_experienceReward q' = q_experienceReward q)
              \<and> (d_achievementId dto = None \<longrightarrow> q_achievementId q' = q_achievementId q)
              \<and> (d_cityId dto = None \<longrightarrow> q_cityId q' = q_cityId q)
              \<and> (d_organizationTypeId dto = None
                    \<longrightarrow> q_organizationTypeId q' = q_organizationTypeId q)
              \<and> (d_latitude dto = None \<longrightarrow> q_latitude q' = q_latitude q)
              \<and> (d_longitude dto = None \<longrightarrow> q_longitude q' = q_longitude q)
              \<and> (d_address dto = None \<longrightarrow> q_address q' = q_address q)
              \<and> (d_contacts dto = None \<longrightarrow> q_contacts q' = q_contacts q)
              \<and> (d_coverImage dto = None \<longrightarrow> q_coverImage q' = q_coverImage q)
              \<and> (d_gallery dto = None \<longrightarrow> q_gallery q' = q_gallery q)
              \<and> (d_steps dto = None \<longrightarrow> q_steps q' = q_steps q)
              \<and> q_id q' = q_id q \<and> q_ownerId q' = q_ownerId q
              \<and> q_recordStatus q' = q_recordStatus q \<and> q_createdAt q' = q_createdAt q"
    unfolding update_stored [OF q]
    by (simp add: applyUpdateData_def buildUpdateData_def setField_def)
  show ?thesis
    using p1 p2 updateValidation_gallery [of s] p4 p5 p6 by blast
qed

theorem update_partial_witness:
  "findByIdBasic scenarioState 1 = Some quest1
   \<and> selectUser scenarioState (q_ownerId quest1) \<noteq> None
   \<and> d_title emptyPatch = None \<and> d_gallery emptyPatch = None \<and> d_steps emptyPatch = None
   \<and> snd (update 7 scenarioState 1 emptyPatch)
       = scenarioState\<lparr>quests := [quest1\<lparr>q_updatedAt := 7\<rparr>]\<rparr>
   \<and> q_gallery quest1 = Some [''a.png'']
   \<and> snd (update 7 scenarioState 1 (emptyPatch\<lparr>d_gallery := Some (Some [])\<rparr>))
       = scenarioState\<lparr>quests := [quest1\<lparr>q_gallery := Some [], q_updatedAt := 7\<rparr>]\<rparr>
   \<and> (\<exists>r. fst (update 7 scenarioState 1 emptyPatch) = Inr r)
   \<and> (\<exists>r. fst (update 7 scenarioState 1 (emptyPatch\<lparr>d_gallery := Some (Some [])\<rparr>)) = Inr r)"
proof -
  have h1: "findByIdBasic scenarioState 1 = Some quest1"
    by (simp add: scenario_defs findByIdBasic_def liveQuest_def)
  have h2: "selectUser scenarioState (q_ownerId quest1) \<noteq> None"
    by (simp add: scenario_defs selectUser_def)
  have h3: "d_title emptyPatch = None \<and> d_gallery emptyPatch = None \<and> d_steps emptyPatch = None"
    by (simp add: emptyPatch_def)
  have h4: "q_gallery quest1 = Some [''a.png'']" by (simp add: quest1_def)
  have h5: "map (\<lambda>q. if liveQuest 1 q then q\<lparr>q_updatedAt := 7\<rparr> else q) (quests scenarioState)
        = [quest1\<lparr>q_updatedAt := 7\<rparr>]"
    "map (\<lambda>q. if liveQuest 1 q then q\<lparr>q_gallery := Some [], q_updatedAt := 7\<rparr> else q)
        (quests scenarioState) = [quest1\<lparr>q_gallery := Some [], q_updatedAt := 7\<rparr>]"
    by (simp_all add: scenario_defs liveQuest_def)
  show ?thesis
    using h1 h2 h3 h4 update_partial [OF h1, of 7 emptyPatch]
    unfolding h5 by blast
qed

subsection \<open>Validation and writes\<close>

lemmas create_defs =
  create_def createInlineAchievement_def questInsertData_def bindAchievement_def
  linkCategories_def autoJoin_def createValidation_def checkCreateOrganizationType_def checkCreateCategories_def
  checkCreateGallery_def insertAchievement_def setAchievementQuestId_def minCreatorLevel_def
  QuestRepository_create_def createQuestCategories_def createUserQuest_def selectUserData_def
  selectCategories_def

lemmas update_defs =
  update_def updateValidation_def checkAchievementId_def checkCityId_def
  checkOrganizationTypeId_def checkGallery_def buildUpdateData_def emptyPatch_def
  requirementsChanged_def deleteQuestCategories_def createQuestCategories_def
  selectCategories_def


text \<open>
  C4. Validation is not front-loaded everywhere. \<open>create\<close> inserts the inline
  achievement before it checks the city: with a city that does not exist the call ends
  in NotFound and the achievement row stays, private and bound to no quest. \<open>update\<close>
  writes the quest row and deletes the quest's category links before it checks that the
  new categories exist: with an unknown category the call ends in NotFound with the
  title already changed and the old links gone.
\<close>

theorem validation_after_write:
  "selectCity scenarioState (cd_cityId questDraft) = None
   \<and> fst (create 7 scenarioState questDraft 1) = Inl (NotFound (MsgCityNotFound 99))
   \<and> achievements scenarioState = []
   \<and> achievements (snd (create 7 scenarioState questDraft 1))
       = [\<lparr>a_id = 1, a_title = ''Gardener'', a_description = None, a_icon = None,
           a_rarity = Private, a_questId = None, a_recordStatus = CREATED\<rparr>]
   \<and> selectCategories taggedState [99] = []
   \<and> fst (update 7 taggedState 1
            (emptyPatch\<lparr>d_title := Some ''Renamed'', d_categoryIds := Some [99]\<rparr>))
       = Inl (NotFound MsgCategoriesNotFound)
   \<and> questCategories taggedState = [\<lparr>qc_questId = 1, qc_categoryId = 1\<rparr>]
   \<and> questCategories (snd (update 7 taggedState 1
            (emptyPatch\<lparr>d_title := Some ''Renamed'', d_categoryIds := Some [99]\<rparr>))) = []
   \<and> map q_title (quests taggedState) = [''Clean the park'']
   \<and> map q_title (quests (snd (update 7 taggedState 1
            (emptyPatch\<lparr>d_title := Some ''Renamed'', d_categoryIds := Some [99]\<rparr>))))
       = [''Renamed'']"
  by (simp add: scenario_defs create_defs update_defs requirement_defs)

subsection \<open>Join exclusivity\<close>

lemma sameParticipation_refl [simp]: "sameParticipation s s"
  by (simp add: sameParticipation_def)

lemma sameParticipation_inv:
  "sameParticipation s s' \<Longrightarrow> joinExclusive s \<Longrightarrow> questIdsAllocated s
     \<Longrightarrow> joinExclusive s' \<and> questIdsAllocated s'"
  by (simp add: sameParticipation_def joinExclusive_def questIdsAllocated_def)

lemma q_id_applyUpdateData [simp]: "q_id (applyUpdateData now d q) = q_id q"
  by (simp add: applyUpdateData_def)

lemma map_q_id_update [simp]:
  "map q_id (map (\<lambda>q. if liveQuest qid q then applyUpdateData now d q else q) qs) = map q_id qs"
  by (induction qs) auto

lemma QuestRepository_update_same:
  "sameParticipation s (snd (QuestRepository_update now s qid d))"
  by (simp add: QuestRepository_update_def sameParticipation_def)

lemma update_same: "sameParticipation s (snd (update now s qid dto))"
  by (auto simp: update_def QuestRepository_update_def sameParticipation_def Let_def emit_def
      deleteQuestCategories_def createQuestCategories_def
      split: option.splits prod.splits)

lemma updateRequirement_same:
  "sameParticipation s (snd (updateRequirementCurrentValue now s questId i v))"
  by (auto simp: updateRequirementCurrentValue_def QuestRepository_update_def
      sameParticipation_def Let_def emit_def split: option.splits prod.splits)

lemma archive_same: "sameParticipation s (snd (archiveQuest now s qid))"
  by (auto simp: archiveQuest_def updateStatus_def QuestRepository_update_def
      sameParticipation_def split: option.splits prod.splits)

lemma unarchive_same: "sameParticipation s (snd (unarchiveQuest now s qid))"
  by (auto simp: unarchiveQuest_def updateStatus_def QuestRepository_update_def
      sameParticipation_def split: option.splits prod.splits)

lemma remove_same: "sameParticipation s (snd (remove now s qid))"
proof -
  have "map q_id (map (\<lambda>q. if liveQuest qid q
          then q\<lparr>q_recordStatus := DELETED, q_updatedAt := now\<rparr> else q) qs) = map q_id qs" for qs
    by (induction qs) auto
  then show ?thesis
    by (auto simp: remove_def softDelete_def sameParticipation_def Let_def
        split: option.splits prod.splits)
qed

lemma achievementCreate_same: "sameParticipation s (snd (AchievementService_create s dto))"
  by (auto simp: AchievementService_create_def AchievementRepository_create_def
      sameParticipation_def Let_def split: option.splits prod.splits)

lemma achievementUpdate_same: "sameParticipation s (snd (AchievementService_update s aid dto))"
  by (auto simp: AchievementService_update_def saveAchievement_def
      AchievementRepository_update_def sameParticipation_def Let_def
      split: option.splits prod.splits if_splits)


lemma joinQuest_cases:
  "(\<exists>e. joinQuest now s userId questId = (Inl e, s)) \<or>
   (\<exists>quest. findUserQuest s userId questId = None
       \<and> findByIdBasic s questId = Some quest \<and> q_status quest = QActive
       \<and> selectUser s userId \<noteq> None
       \<and> joinQuest now s userId questId
           = (Inr \<lparr>uq_id = nextUserQuestId s, uq_userId = userId, uq_questId = questId,
                    uq_status = UQ_in_progress, uq_startedAt = Some now, uq_completedAt = None\<rparr>,
              s\<lparr>userQuests := userQuests s @
                   [\<lparr>uq_id = nextUserQuestId s, uq_userId = userId, uq_questId = questId,
                     uq_status = UQ_in_progress, uq_startedAt = Some now,
                     uq_completedAt = None\<rparr>],
                 nextUserQuestId := Suc (nextUserQuestId s),
                 events := events s @ [UserJoined questId userId (selectUserData s userId)]\<rparr>))"
  by (auto simp: joinQuest_def createUserQuest_def Let_def emit_def selectUserData_def
      selectUser_def split: option.splits)

lemma findUserQuest_None_key:
  "findUserQuest s userId questId = None
     \<longleftrightarrow> (userId, questId) \<notin> set (map participationKey (userQuests s))"
  by (auto simp: findUserQuest_def find_None_iff participationKey_def)

lemma findByIdBasic_id: "findByIdBasic s qid = Some q \<Longrightarrow> q \<in> set (quests s) \<and> q_id q = qid"
  by (auto simp: findByIdBasic_def liveQuest_def dest: find_Some_mem)

lemma joinQuest_inv:
  assumes "joinExclusive s" "questIdsAllocated s"
  shows "joinExclusive (snd (joinQuest now s userId questId))
       \<and> questIdsAllocated (snd (joinQuest now s userId questId))"
  using joinQuest_cases [of now s userId questId]
proof (elim disjE exE conjE)
  fix e assume "joinQuest now s userId questId = (Inl e, s)"
  with assms show ?thesis by simp
next
  fix quest
  assume n: "findUserQuest s userId questId = None"
    and q: "findByIdBasic s questId = Some quest"
    and j: "joinQuest now s userId questId
           = (Inr \<lparr>uq_id = nextUserQuestId s, uq_userId = userId, uq_questId = questId,
                    uq_status = UQ_in_progress, uq_startedAt = Some now, uq_completedAt = None\<rparr>,
              s\<lparr>userQuests := userQuests s @
                   [\<lparr>uq_id = nextUserQuestId s, uq_userId = userId, uq_questId = questId,
                     uq_status = UQ_in_progress, uq_startedAt = Some now,
                     uq_completedAt = None\<rparr>],
                 nextUserQuestId := Suc (nextUserQuestId s),
                 events := events s @ [UserJoined questId userId (selectUserData s userId)]\<rparr>)"
  from findByIdBasic_id [OF q] assms(2) have "questId < nextQuestId s"
    by (auto simp: questIdsAllocated_def)
  with assms n show ?thesis
    unfolding j by (auto simp: joinExclusive_def questIdsAllocated_def findUserQuest_None_key
        participationKey_def)
qed

lemma leaveQuest_effect:
  "\<exists>P. userQuests (snd (leaveQuest s userId questId)) = filter P (userQuests s)
       \<and> nextQuestId (snd (leaveQuest s userId questId)) = nextQuestId s
       \<and> quests (snd (leaveQuest s userId questId)) = quests s"
proof (cases "\<exists>e. leaveQuest s userId questId = (Inl e, s)")
  case True
  then show ?thesis by (auto intro: exI [of _ "\<lambda>_. True"])
next
  case False
  then show ?thesis
    by (auto simp: leaveQuest_def deleteUserQuest_def split: option.splits if_splits)
qed

lemma leaveQuest_inv:
  assumes "joinExclusive s" "questIdsAllocated s"
  shows "joinExclusive (snd (leaveQuest s userId questId))
       \<and> questIdsAllocated (snd (leaveQuest s userId questId))"
proof -
  from leaveQuest_effect [of s userId questId] obtain P where
    "userQuests (snd (leaveQuest s userId questId)) = filter P (userQuests s)"
    "nextQuestId (snd (leaveQuest s userId questId)) = nextQuestId s"
    "quests (snd (leaveQuest s userId questId)) = quests s"
    by blast
  with assms show ?thesis
    by (auto simp: joinExclusive_def questIdsAllocated_def distinct_map_filter)
qed

lemma completeQuest_effect:
  "\<exists>f. (\<forall>r. participationKey (f r) = participationKey r)
       \<and> userQuests (snd (completeQuest now s userId questId)) = map f (userQuests s)
       \<and> nextQuestId (snd (completeQuest now s userId questId)) = nextQuestId s
       \<and> quests (snd (completeQuest now s userId questId)) = quests s"
proof (cases "\<exists>e. completeQuest now s userId questId = (Inl e, s)")
  case True
  then show ?thesis by (auto intro: exI [of _ "\<lambda>r. r"])
next
  case False
  let ?d = "\<lparr>uqu_status = Some UQ_completed, uqu_completedAt = Some (Some now)\<rparr>"
  from False obtain uq where
    "findUserQuest s userId questId = Some uq"
    "userQuests (snd (completeQuest now s userId questId))
       = map (\<lambda>r. if uq_id r = uq_id uq then applyUserQuestUpdate ?d r else r) (userQuests s)"
    "nextQuestId (snd (completeQuest now s userId questId)) = nextQuestId s"
    "quests (snd (completeQuest now s userId questId)) = quests s"
    by (auto simp: completeQuest_def updateUserQuest_def Let_def emit_def
        insertUserAchievement_def split: option.splits if_splits)
  then show ?thesis
    by (intro exI [of _ "\<lambda>r. if uq_id r = uq_id uq then applyUserQuestUpdate ?d r else r"])
      (simp add: participationKey_def applyUserQuestUpdate_def)
qed

lemma completeQuest_inv:
  assumes "joinExclusive s" "questIdsAllocated s"
  shows "joinExclusive (snd (completeQuest now s userId questId))
       \<and> questIdsAllocated (snd (completeQuest now s userId questId))"
proof -
  from completeQuest_effect [of now s userId questId] obtain f where
    f: "\<And>r. participationKey (f r) = participationKey r"
    and e: "userQuests (snd (completeQuest now s userId questId)) = map f (userQuests s)"
    "nextQuestId (snd (completeQuest now s userId questId)) = nextQuestId s"
    "quests (snd (completeQuest now s userId questId)) = quests s"
    by blast
  have k: "participationKey \<circ> f = participationKey"
    by (rule ext) (simp add: f)
  have "\<And>r. uq_questId (f r) = uq_questId r"
    using f by (simp add: participationKey_def)
  with assms e k show ?thesis
    by (auto simp: joinExclusive_def questIdsAllocated_def)
qed

lemma createInlineAchievement_same:
  "sameParticipation s (snd (createInlineAchievement s dto))"
  by (simp add: createInlineAchievement_def insertAchievement_def sameParticipation_def
      Let_def split: option.split)

lemma bindAchievement_same: "sameParticipation s (bindAchievement s aid qid)"
  by (simp add: bindAchievement_def setAchievementQuestId_def sameParticipation_def
      split: option.split)

lemma linkCategories_same: "sameParticipation s (linkCategories s dto qid)"
  by (simp add: linkCategories_def createQuestCategories_def sameParticipation_def
      split: option.split)

lemma sameParticipation_trans:
  "sameParticipation a b \<Longrightarrow> sameParticipation b c \<Longrightarrow> sameParticipation a c"
  by (simp add: sameParticipation_def)

lemma autoJoin_effect:
  "\<exists>r. userQuests (autoJoin now s userId qid d) = userQuests s @ [r]
       \<and> participationKey r = (userId, qid)
       \<and> nextQuestId (autoJoin now s userId qid d) = nextQuestId s
       \<and> quests (autoJoin now s userId qid d) = quests s"
  by (simp add: autoJoin_def createUserQuest_def emit_def participationKey_def Let_def)

lemma QuestRepository_create_effect:
  "q_id (fst (QuestRepository_create now s d)) = nextQuestId s
   \<and> userQuests (snd (QuestRepository_create now s d)) = userQuests s
   \<and> nextQuestId (snd (QuestRepository_create now s d)) = Suc (nextQuestId s)
   \<and> map q_id (quests (snd (QuestRepository_create now s d))) = map q_id (quests s) @ [nextQuestId s]"
  by (simp add: QuestRepository_create_def Let_def)

lemma create_effect:
  "sameParticipation s (snd (create now s dto userId)) \<or>
   (nextQuestId (snd (create now s dto userId)) = Suc (nextQuestId s)
    \<and> map q_id (quests (snd (create now s dto userId))) = map q_id (quests s) @ [nextQuestId s]
    \<and> (userQuests (snd (create now s dto userId)) = userQuests s
        \<or> (\<exists>r. userQuests (snd (create now s dto userId)) = userQuests s @ [r]
               \<and> participationKey r = (userId, nextQuestId s))))"
proof (cases "selectUser s userId")
  case None
  then show ?thesis by (simp add: create_def)
next
  case (Some user)
  show ?thesis
  proof (cases "u_level user < minCreatorLevel")
    case True
    with Some show ?thesis by (simp add: create_def)
  next
    case False
    obtain aid s1 where a: "createInlineAchievement s dto = (aid, s1)"
      by (cases "createInlineAchievement s dto")
    from createInlineAchievement_same [of s dto] a have s1: "sameParticipation s s1" by simp
    show ?thesis
    proof (cases "createValidation s1 dto")
      case (Inl e)
      with Some False a have "create now s dto userId = (Inl e, s1)"
        by (simp add: create_def)
      with s1 show ?thesis by simp
    next
      case (Inr city)
      obtain quest s2 where c: "QuestRepository_create now s1
          (questInsertData dto userId aid city) = (quest, s2)"
        by (cases "QuestRepository_create now s1 (questInsertData dto userId aid city)")
      define s4 where "s4 = linkCategories (bindAchievement s2 aid (q_id quest)) dto (q_id quest)"
      from QuestRepository_create_effect [of now s1 "questInsertData dto userId aid city"] c
      have qid: "q_id quest = nextQuestId s1" and u2: "userQuests s2 = userQuests s1"
        and n2: "nextQuestId s2 = Suc (nextQuestId s1)"
        and q2: "map q_id (quests s2) = map q_id (quests s1) @ [nextQuestId s1]"
        by simp_all
      have "sameParticipation s2 s4"
        unfolding s4_def
        by (rule sameParticipation_trans [OF bindAchievement_same linkCategories_same])
      with u2 n2 q2 s1 have s4: "userQuests s4 = userQuests s"
        "nextQuestId s4 = Suc (nextQuestId s)"
        "map q_id (quests s4) = map q_id (quests s) @ [nextQuestId s]"
        by (simp_all add: sameParticipation_def)
      from qid s1 have qid': "q_id quest = nextQuestId s" by (simp add: sameParticipation_def)
      show ?thesis
      proof (cases "findById s4 (q_id quest)")
        case None
        with Some False a Inr c have "create now s dto userId
            = (Inl (InternalError MsgFetchCreatedQuestFailed), s4)"
          by (simp add: create_def Let_def s4_def)
        with s4 show ?thesis by simp
      next
        case (Some w)
        with \<open>selectUser s userId = Some user\<close> False a Inr c
        have "snd (create now s dto userId)
            = autoJoin now s4 userId (q_id quest) (w, findCategoriesByQuestId s4 (q_id quest))"
          by (simp add: create_def Let_def s4_def)
        with autoJoin_effect [of now s4 userId "q_id quest"
            "(w, findCategoriesByQuestId s4 (q_id quest))"] s4 qid'
        show ?thesis by auto
      qed
    qed
  qed
qed

lemma create_inv:
  assumes "joinExclusive s" "questIdsAllocated s"
  shows "joinExclusive (snd (create now s dto userId))
       \<and> questIdsAllocated (snd (create now s dto userId))"
  using create_effect [of s now dto userId]
proof (elim disjE conjE exE)
  assume "sameParticipation s (snd (create now s dto userId))"
  from sameParticipation_inv [OF this assms] show ?thesis .
next
  assume "nextQuestId (snd (create now s dto userId)) = Suc (nextQuestId s)"
    "map q_id (quests (snd (create now s dto userId))) = map q_id (quests s) @ [nextQuestId s]"
    "userQuests (snd (create now s dto userId)) = userQuests s"
  with assms show ?thesis
    by (auto simp: joinExclusive_def questIdsAllocated_def less_Suc_eq)
next
  fix r
  assume "nextQuestId (snd (create now s dto userId)) = Suc (nextQuestId s)"
    "map q_id (quests (snd (create now s dto userId))) = map q_id (quests s) @ [nextQuestId s]"
    "userQuests (snd (create now s dto userId)) = userQuests s @ [r]"
    "participationKey r = (userId, nextQuestId s)"
  with assms show ?thesis
    by (fastforce simp: joinExclusive_def questIdsAllocated_def less_Suc_eq participationKey_def)
qed

lemma perform_inv:
  assumes "joinExclusive s" "questIdsAllocated s"
  shows "joinExclusive (perform now s call) \<and> questIdsAllocated (perform now s call)"
proof (cases call)
  case (Create dto userId)
  with create_inv [OF assms] show ?thesis by simp
next
  case (Update qid dto)
  with sameParticipation_inv [OF update_same assms] show ?thesis by simp
next
  case (Remove qid)
  with sameParticipation_inv [OF remove_same assms] show ?thesis by simp
next
  case (JoinQuest userId questId)
  with joinQuest_inv [OF assms] show ?thesis by simp
next
  case (LeaveQuest userId questId)
  with leaveQuest_inv [OF assms] show ?thesis by simp
next
  case (CompleteQuest userId questId)
  with completeQuest_inv [OF assms] show ?thesis by simp
next
  case (UpdateRequirementCurrentValue questId stepIndex v)
  with sameParticipation_inv [OF updateRequirement_same assms] show ?thesis by simp
next
  case (ArchiveQuest qid)
  with sameParticipation_inv [OF archive_same assms] show ?thesis by simp
next
  case (UnarchiveQuest qid)
  with sameParticipation_inv [OF unarchive_same assms] show ?thesis by simp
next
  case (AchievementCreate dto)
  with sameParticipation_inv [OF achievementCreate_same assms] show ?thesis by simp
next
  case (AchievementUpdate aid dto)
  with sameParticipation_inv [OF achievementUpdate_same assms] show ?thesis by simp
qed

lemma run_inv:
  "joinExclusive s \<Longrightarrow> questIdsAllocated s
     \<Longrightarrow> joinExclusive (run s calls) \<and> questIdsAllocated (run s calls)"
proof (induction calls arbitrary: s)
  case Nil
  then show ?case by simp
next
  case (Cons c calls)
  obtain now call where c: "c = (now, call)" by (cases c)
  from perform_inv [OF Cons.prems, of now call] Cons.IH [of "perform now s call"]
  show ?case by (simp add: c)
qed

text \<open>
  C5. From a store in which no two participation rows share a (user, quest) pair and
  the quest counter lies above the quest ids in use, every history of engine calls leads
  to a store with at most one participation row per pair. \<open>joinQuest\<close> for a pair that
  already has a row returns an error and the store it was given, and that error is
  Conflict once user and quest are found and the quest is active; a \<open>joinQuest\<close> that
  succeeds found no row for the pair and appends exactly one row, in progress, for it;
  a \<open>joinQuest\<close> that fails changes nothing.
\<close>

theorem join_exclusivity:
  "(joinExclusive s \<and> questIdsAllocated s \<longrightarrow> joinExclusive (run s calls))
   \<and> (findUserQuest s userId questId \<noteq> None
        \<longrightarrow> (\<exists>e. joinQuest now s userId questId = (Inl e, s)))
   \<and> (selectUser s userId \<noteq> None
        \<and> (\<exists>q. findByIdBasic s questId = Some q \<and> q_status q = QActive)
        \<and> findUserQuest s userId questId \<noteq> None
        \<longrightarrow> joinQuest now s userId questId = (Inl (Conflict MsgAlreadyJoined), s))
   \<and> (\<forall>r s'. joinQuest now s userId questId = (Inr r, s')
        \<longrightarrow> findUserQuest s userId questId = None \<and> userQuests s' = userQuests s @ [r]
          \<and> uq_userId r = userId \<and> uq_questId r = questId \<and> uq_status r = UQ_in_progress)
   \<and> (\<forall>e s'. joinQuest now s userId questId = (Inl e, s') \<longrightarrow> s' = s)"
proof -
  have a: "joinExclusive (run s calls)" if "joinExclusive s \<and> questIdsAllocated s"
    using that run_inv [of s calls] by simp
  have b: "\<exists>e. joinQuest now s userId questId = (Inl e, s)"
    if "findUserQuest s userId questId \<noteq> None"
    using that joinQuest_cases [of now s userId questId] by auto
  have c: "joinQuest now s userId questId = (Inl (Conflict MsgAlreadyJoined), s)"
    if "selectUser s userId \<noteq> None
        \<and> (\<exists>q. findByIdBasic s questId = Some q \<and> q_status q = QActive)
        \<and> findUserQuest s userId questId \<noteq> None"
    using that by (auto simp: joinQuest_def)
  have d: "findUserQuest s userId questId = None \<and> userQuests s' = userQuests s @ [r]
          \<and> uq_userId r = userId \<and> uq_questId r = questId \<and> uq_status r = UQ_in_progress"
    if "joinQuest now s userId questId = (Inr r, s')" for r s'
    using that joinQuest_cases [of now s userId questId] by auto
  have e: "s' = s" if "joinQuest now s userId questId = (Inl e, s')" for e s'
    using that joinQuest_cases [of now s userId questId] by auto
  from a b c d e show ?thesis by blast
qed

theorem join_exclusivity_witness:
  "joinExclusive scenarioState \<and> questIdsAllocated scenarioState
   \<and> joinExclusive (run scenarioState [(7, JoinQuest 1 1), (8, LeaveQuest 1 1), (9, JoinQuest 1 1)])
   \<and> findUserQuest scenarioState 1 1 \<noteq> None \<and> selectUser scenarioState 1 \<noteq> None
   \<and> findByIdBasic scenarioState 1 = Some quest1 \<and> q_status quest1 = QActive
   \<and> joinQuest 7 scenarioState 1 1 = (Inl (Conflict MsgAlreadyJoined), scenarioState)
   \<and> (\<exists>r. joinQuest 7 (scenarioState\<lparr>userQuests := []\<rparr>) 1 1
            = (Inr r, snd (joinQuest 7 (scenarioState\<lparr>userQuests := []\<rparr>) 1 1)))
   \<and> map uq_status (userQuests (snd (joinQuest 7 (scenarioState\<lparr>userQuests := []\<rparr>) 1 1)))
       = [UQ_in_progress]"
proof -
  have h1: "joinExclusive scenarioState \<and> questIdsAllocated scenarioState"
    by (simp add: scenario_defs joinExclusive_def questIdsAllocated_def)
  have h2: "findUserQuest scenarioState 1 1 \<noteq> None \<and> selectUser scenarioState 1 \<noteq> None
      \<and> findByIdBasic scenarioState 1 = Some quest1 \<and> q_status quest1 = QActive"
    by (simp add: scenario_defs findUserQuest_def selectUser_def findByIdBasic_def liveQuest_def)
  have h3: "\<exists>r. joinQuest 7 (scenarioState\<lparr>userQuests := []\<rparr>) 1 1
      = (Inr r, snd (joinQuest 7 (scenarioState\<lparr>userQuests := []\<rparr>) 1 1))"
    by (simp add: scenario_defs joinQuest_def selectUser_def findByIdBasic_def liveQuest_def
        findUserQuest_def createUserQuest_def selectUserData_def emit_def Let_def)
  then obtain r where h4: "joinQuest 7 (scenarioState\<lparr>userQuests := []\<rparr>) 1 1
      = (Inr r, snd (joinQuest 7 (scenarioState\<lparr>userQuests := []\<rparr>) 1 1))" ..
  have h5: "userQuests (scenarioState\<lparr>userQuests := []\<rparr>) = []" by simp
  note j1 = join_exclusivity [of scenarioState
      "[(7, JoinQuest 1 1), (8, LeaveQuest 1 1), (9, JoinQuest 1 1)]" 1 1 7]
  note j2 = join_exclusivity [of "scenarioState\<lparr>userQuests := []\<rparr>" "[]" 1 1 7]
  from j1 h1 have a: "joinExclusive
      (run scenarioState [(7, JoinQuest 1 1), (8, LeaveQuest 1 1), (9, JoinQuest 1 1)])"
    by blast
  from j1 h2 have b: "joinQuest 7 scenarioState 1 1
      = (Inl (Conflict MsgAlreadyJoined), scenarioState)"
    by blast
  from j2 h4 have "userQuests (snd (joinQuest 7 (scenarioState\<lparr>userQuests := []\<rparr>) 1 1))
        = userQuests (scenarioState\<lparr>userQuests := []\<rparr>) @ [r]
      \<and> uq_status r = UQ_in_progress"
    by blast
  then have c: "map uq_status
      (userQuests (snd (joinQuest 7 (scenarioState\<lparr>userQuests := []\<rparr>) 1 1)))
        = [UQ_in_progress]"
    by simp
  from h1 h2 h3 a b c show ?thesis by blast
qed

subsection \<open>Rarity and quest binding\<close>


lemma findQuestById_achievements [simp]:
  "AchievementRepository_findQuestById (s\<lparr>achievements := x\<rparr>) qid
     = AchievementRepository_findQuestById s qid"
  by (simp add: AchievementRepository_findQuestById_def)

lemma rarityQuestInvariant_achievements [simp]:
  "rarityQuestInvariant (s\<lparr>achievements := x\<rparr>) a = rarityQuestInvariant s a"
  by (simp add: rarityQuestInvariant_def split: option.splits)


lemma liveAchievement_apply [simp]:
  "liveAchievement (applyAchievementUpdate d a) = liveAchievement a"
  by (simp add: liveAchievement_def applyAchievementUpdate_def)








lemma a_id_apply [simp]: "a_id (applyAchievementUpdate d a) = a_id a"
  by (simp add: applyAchievementUpdate_def)









end
